theory Spec2Isabelle
  imports Complex_Main
begin

section \<open>Python values\<close>

text \<open>
  The program is a single Python module, \<^verbatim>\<open>Bilanco-tablosu.py\<close>. Its data are
  dictionaries from strings to floats or strings, and spreadsheet cells read through
  \<^verbatim>\<open>openpyxl\<close>.

  A Python \<^verbatim>\<open>str\<close> is a sequence of Unicode code points, modelled as a list of
  naturals. A literal without Turkish letters is written with \<open>asc\<close>, character by
  character. The labels of the chart of accounts are Turkish, and their literals are
  written with \<open>tr\<close>: an ASCII string in which \<^verbatim>\<open>~\<close> before one of the
  letters c, g, i, o, s, u (or their capitals) stands for the Turkish letter
  c-cedilla U+00E7, g-breve U+011F, dotless i U+0131, o-diaeresis U+00F6,
  s-cedilla U+015F, u-diaeresis U+00FC (capitals U+00C7, U+011E, dotted capital I
  U+0130, U+00D6, U+015E, U+00DC). No literal of the source holds the character
  \<^verbatim>\<open>~\<close> itself.
\<close>

type_synonym ustr = "nat list"

definition tr_letter :: "nat \<Rightarrow> nat" where
  "tr_letter e =
     (if e = of_char CHR ''c'' then 231 else if e = of_char CHR ''C'' then 199
      else if e = of_char CHR ''g'' then 287 else if e = of_char CHR ''G'' then 286
      else if e = of_char CHR ''i'' then 305 else if e = of_char CHR ''I'' then 304
      else if e = of_char CHR ''o'' then 246 else if e = of_char CHR ''O'' then 214
      else if e = of_char CHR ''s'' then 351 else if e = of_char CHR ''S'' then 350
      else if e = of_char CHR ''u'' then 252 else if e = of_char CHR ''U'' then 220
      else e)"

fun decode :: "nat list \<Rightarrow> ustr" where
  "decode (c # e # cs) =
     (if c = of_char CHR ''~'' then tr_letter e # decode cs else c # decode (e # cs))"
| "decode cs = cs"

definition tr :: "string \<Rightarrow> ustr" where
  "tr s = decode (map of_char s)"

definition asc :: "string \<Rightarrow> ustr" where
  "asc s = map of_char s"

text \<open>
  Amounts are Python floats. They are modelled as real numbers: the statements below are
  about which keys are summed, which checks fire and which cells are read, and the model
  covers finite amounts computed without rounding. A value of a dictionary or of a cell
  is \<^verbatim>\<open>None\<close>, a string, an integer or a float.
\<close>

datatype pyval = PNone | PStr ustr | PInt int | PFloat real

subsection \<open>The string methods the module calls\<close>

text \<open>\<^verbatim>\<open>str.isspace\<close> for one character: the white space of Unicode.\<close>

definition py_isspace :: "nat \<Rightarrow> bool" where
  "py_isspace c \<longleftrightarrow>
     (9 \<le> c \<and> c \<le> 13) \<or> (28 \<le> c \<and> c \<le> 32) \<or> c = 133 \<or> c = 160 \<or> c = 5760
     \<or> (8192 \<le> c \<and> c \<le> 8202) \<or> c = 8232 \<or> c = 8233 \<or> c = 8239 \<or> c = 8287
     \<or> c = 12288"

definition py_strip :: "ustr \<Rightarrow> ustr" where
  "py_strip s = rev (dropWhile py_isspace (rev (dropWhile py_isspace s)))"

text \<open>\<^verbatim>\<open>s.split()\<close>: the maximal runs of characters that are not white space.\<close>

fun split_ws :: "ustr \<Rightarrow> ustr \<Rightarrow> ustr list" where
  "split_ws w [] = (if w = [] then [] else [w])"
| "split_ws w (c # cs) =
     (if py_isspace c then (if w = [] then split_ws [] cs else w # split_ws [] cs)
      else split_ws (w @ [c]) cs)"

definition py_split :: "ustr \<Rightarrow> ustr list" where
  "py_split s = split_ws [] s"

fun py_join :: "ustr \<Rightarrow> ustr list \<Rightarrow> ustr" where
  "py_join sep [] = []"
| "py_join sep [w] = w"
| "py_join sep (w # v # ws) = w @ sep @ py_join sep (v # ws)"

definition py_endswith :: "ustr \<Rightarrow> ustr \<Rightarrow> bool" where
  "py_endswith s suf \<longleftrightarrow> length suf \<le> length s \<and> drop (length s - length suf) s = suf"

text \<open>A lookup in a table of pairs: the first pair with the key.\<close>

fun assoc :: "('k \<times> 'v) list \<Rightarrow> 'k \<Rightarrow> 'v option" where
  "assoc [] k = None"
| "assoc ((k', v) # kvs) k = (if k' = k then Some v else assoc kvs k)"

text \<open>
  \<^verbatim>\<open>str.lower\<close>, and the two functions of \<^verbatim>\<open>unicodedata\<close> that
  \<^verbatim>\<open>_normalize\<close> calls. The tables of the Unicode database are given for Basic
  Latin, the letters of Latin-1 Supplement (U+00C0 to U+00FF), the Turkish letters
  of Latin Extended-A and the combining diacritical marks U+0300 to U+036F; any other
  code point is taken to have no lower-case mapping, no decomposition and combining
  class 0. Dotted capital I lowers to \<^verbatim>\<open>i\<close> followed by the combining dot
  above, as Python's full case mapping does; dotless i has no decomposition.
\<close>

definition py_lower_char :: "nat \<Rightarrow> ustr" where
  "py_lower_char c =
     (if 65 \<le> c \<and> c \<le> 90 then [c + 32]
      else if 192 \<le> c \<and> c \<le> 222 \<and> c \<noteq> 215 then [c + 32]
      else if c = 286 then [287]
      else if c = 304 then [105, 775]
      else if c = 350 then [351]
      else [c])"

definition py_lower :: "ustr \<Rightarrow> ustr" where
  "py_lower s = concat (map py_lower_char s)"

definition nfkd_table :: "(nat \<times> ustr) list" where
  "nfkd_table =
     [(192, [65, 768]), (193, [65, 769]), (194, [65, 770]), (195, [65, 771]),
      (196, [65, 776]), (197, [65, 778]), (199, [67, 807]),
      (200, [69, 768]), (201, [69, 769]), (202, [69, 770]), (203, [69, 776]),
      (204, [73, 768]), (205, [73, 769]), (206, [73, 770]), (207, [73, 776]),
      (209, [78, 771]),
      (210, [79, 768]), (211, [79, 769]), (212, [79, 770]), (213, [79, 771]),
      (214, [79, 776]),
      (217, [85, 768]), (218, [85, 769]), (219, [85, 770]), (220, [85, 776]),
      (221, [89, 769]),
      (224, [97, 768]), (225, [97, 769]), (226, [97, 770]), (227, [97, 771]),
      (228, [97, 776]), (229, [97, 778]), (231, [99, 807]),
      (232, [101, 768]), (233, [101, 769]), (234, [101, 770]), (235, [101, 776]),
      (236, [105, 768]), (237, [105, 769]), (238, [105, 770]), (239, [105, 776]),
      (241, [110, 771]),
      (242, [111, 768]), (243, [111, 769]), (244, [111, 770]), (245, [111, 771]),
      (246, [111, 776]),
      (249, [117, 768]), (250, [117, 769]), (251, [117, 770]), (252, [117, 776]),
      (253, [121, 769]), (255, [121, 776]),
      (286, [71, 774]), (287, [103, 774]), (304, [73, 775]),
      (350, [83, 807]), (351, [115, 807]),
      (832, [768]), (833, [769]), (835, [787]), (836, [776, 769])]"

definition nfkd_char :: "nat \<Rightarrow> ustr" where
  "nfkd_char c = (case assoc nfkd_table c of Some d \<Rightarrow> d | None \<Rightarrow> [c])"

definition nfkd :: "ustr \<Rightarrow> ustr" where
  "nfkd s = concat (map nfkd_char s)"

definition combining :: "nat \<Rightarrow> bool" where
  "combining c \<longleftrightarrow> 768 \<le> c \<and> c \<le> 879 \<and> c \<noteq> 847"

subsection \<open>Conversions: \<^verbatim>\<open>float\<close>, \<^verbatim>\<open>str\<close>, truth value\<close>

text \<open>
  \<^verbatim>\<open>float(s)\<close> of a string: white space around it is dropped, then an optional
  sign, digits with an optional fraction, and an optional exponent are read. Any other
  string raises \<^verbatim>\<open>ValueError\<close>, the value \<open>None\<close> here. (The spellings of
  infinity and not-a-number and digit groups with underscores are outside the model of
  finite amounts.)
\<close>

definition is_digit :: "nat \<Rightarrow> bool" where
  "is_digit c \<longleftrightarrow> 48 \<le> c \<and> c \<le> 57"

definition digits_val :: "ustr \<Rightarrow> nat" where
  "digits_val ds = foldl (\<lambda>a c. 10 * a + (c - 48)) 0 ds"

definition cut_at :: "(nat \<Rightarrow> bool) \<Rightarrow> ustr \<Rightarrow> ustr \<times> ustr option" where
  "cut_at P s =
     (case dropWhile (\<lambda>c. \<not> P c) s of
        [] \<Rightarrow> (s, None)
      | _ # r \<Rightarrow> (takeWhile (\<lambda>c. \<not> P c) s, Some r))"

definition strip_sign :: "ustr \<Rightarrow> bool \<times> ustr" where
  "strip_sign s =
     (case s of
        [] \<Rightarrow> (False, [])
      | c # r \<Rightarrow> if c = 45 then (True, r) else if c = 43 then (False, r) else (False, s))"

definition parse_exponent :: "ustr option \<Rightarrow> int option" where
  "parse_exponent e =
     (case e of
        None \<Rightarrow> Some 0
      | Some s \<Rightarrow>
          (let (neg, ds) = strip_sign s in
           if ds \<noteq> [] \<and> list_all is_digit ds
           then Some (if neg then - int (digits_val ds) else int (digits_val ds))
           else None))"

definition py_float_str :: "ustr \<Rightarrow> real option" where
  "py_float_str s =
     (let (neg, t) = strip_sign (py_strip s);
          (mant, ex) = cut_at (\<lambda>c. c = 101 \<or> c = 69) t;
          (ip, fr) = cut_at (\<lambda>c. c = 46) mant;
          fp = (case fr of None \<Rightarrow> [] | Some f \<Rightarrow> f)
      in if list_all is_digit ip \<and> list_all is_digit fp \<and> (ip \<noteq> [] \<or> fp \<noteq> [])
         then (case parse_exponent ex of
                 None \<Rightarrow> None
               | Some e \<Rightarrow>
                   (let m = real (digits_val (ip @ fp));
                        k = e - int (length fp);
                        v = (if 0 \<le> k then m * 10 ^ nat k else m / 10 ^ nat (- k))
                    in Some (if neg then - v else v)))
         else None)"

text \<open>
  \<^verbatim>\<open>float(v)\<close>: \<open>None\<close> stands for the \<^verbatim>\<open>TypeError\<close> or
  \<^verbatim>\<open>ValueError\<close> that every call site of the module catches.
\<close>

fun py_float :: "pyval \<Rightarrow> real option" where
  "py_float PNone = None"
| "py_float (PStr s) = py_float_str s"
| "py_float (PInt n) = Some (real_of_int n)"
| "py_float (PFloat x) = Some x"

fun py_truthy :: "pyval \<Rightarrow> bool" where
  "py_truthy PNone = False"
| "py_truthy (PStr s) = (s \<noteq> [])"
| "py_truthy (PInt n) = (n \<noteq> 0)"
| "py_truthy (PFloat x) = (x \<noteq> 0)"

definition py_or :: "pyval \<Rightarrow> pyval \<Rightarrow> pyval" where
  "py_or a b = (if py_truthy a then a else b)"

fun digits :: "nat \<Rightarrow> ustr" where
  "digits n = (if n < 10 then [48 + n] else digits (n div 10) @ [48 + n mod 10])"

declare digits.simps [simp del]

fun frac_digits :: "nat \<Rightarrow> real \<Rightarrow> ustr" where
  "frac_digits 0 r = []"
| "frac_digits (Suc n) r =
     (let d = nat \<lfloor>r * 10\<rfloor>; r' = r * 10 - real d
      in (48 + d) # (if r' = 0 then [] else frac_digits n r'))"

text \<open>
  \<^verbatim>\<open>str(v)\<close>. For a float it is the decimal expansion of the amount with at least
  one digit after the point, which is what Python prints for an amount of at most 15
  significant digits whose size is between \<^verbatim>\<open>1e-4\<close> and \<^verbatim>\<open>1e16\<close>.
\<close>

definition str_float :: "real \<Rightarrow> ustr" where
  "str_float x =
     (if x < 0 then [45] else []) @ digits (nat \<lfloor>\<bar>x\<bar>\<rfloor>) @ [46]
       @ frac_digits 17 (\<bar>x\<bar> - real_of_int \<lfloor>\<bar>x\<bar>\<rfloor>)"

fun py_str :: "pyval \<Rightarrow> ustr" where
  "py_str PNone = asc ''None''"
| "py_str (PStr s) = s"
| "py_str (PInt n) = (if n < 0 then [45] else []) @ digits (nat \<bar>n\<bar>)"
| "py_str (PFloat x) = str_float x"

text \<open>
  The formats \<^verbatim>\<open>{x:.2f}\<close> and \<^verbatim>\<open>{x:,.2f}\<close>: two decimals, rounded to
  the nearest with ties to even, the second with the integer digits in groups of three.
\<close>

definition round_half_even :: "real \<Rightarrow> nat" where
  "round_half_even y =
     (let f = nat \<lfloor>y\<rfloor>; r = y - real f
      in if r < 1 / 2 then f else if 1 / 2 < r then f + 1 else if even f then f else f + 1)"

definition fmt2_parts :: "real \<Rightarrow> ustr \<times> ustr \<times> ustr" where
  "fmt2_parts x =
     (let n = round_half_even (\<bar>x\<bar> * 100)
      in ((if x < 0 then [45] else []), digits (n div 100),
          [48 + (n mod 100) div 10, 48 + n mod 10]))"

definition fmt2 :: "real \<Rightarrow> ustr" where
  "fmt2 x = (case fmt2_parts x of (sg, ip, fp) \<Rightarrow> sg @ ip @ [46] @ fp)"

fun group3 :: "ustr \<Rightarrow> ustr" where
  "group3 (a # b # c # d # r) = a # b # c # 44 # group3 (d # r)"
| "group3 r = r"

definition fmt2_grouped :: "real \<Rightarrow> ustr" where
  "fmt2_grouped x =
     (case fmt2_parts x of (sg, ip, fp) \<Rightarrow> sg @ rev (group3 (rev ip)) @ [46] @ fp)"

definition py_replace :: "nat \<Rightarrow> nat \<Rightarrow> ustr \<Rightarrow> ustr" where
  "py_replace a b s = map (\<lambda>c. if c = a then b else c) s"

subsection \<open>Dictionaries\<close>

text \<open>
  A \<^verbatim>\<open>dict\<close> keeps its keys in insertion order, and \<^verbatim>\<open>validate\<close> walks
  \<^verbatim>\<open>d.items()\<close>, so a dictionary is an association list: \<open>dict_set\<close> overwrites
  the value of a key in place and appends a new key at the end.
\<close>

type_synonym 'v dict = "(ustr \<times> 'v) list"

fun dict_set :: "'v dict \<Rightarrow> ustr \<Rightarrow> 'v \<Rightarrow> 'v dict" where
  "dict_set [] k v = [(k, v)]"
| "dict_set ((k', v') # kvs) k v =
     (if k' = k then (k, v) # kvs else (k', v') # dict_set kvs k v)"

definition dict_get :: "'v dict \<Rightarrow> ustr \<Rightarrow> 'v \<Rightarrow> 'v" where
  "dict_get d k dflt = (case assoc d k of Some v \<Rightarrow> v | None \<Rightarrow> dflt)"

type_synonym entries = "pyval dict"

section \<open>The chart of accounts\<close>

text \<open>
  \<^verbatim>\<open>SECTION_FIELDS\<close> maps each side (\<^verbatim>\<open>AKTIF\<close>, \<^verbatim>\<open>PASIF\<close>) to its groups
  and each group to its \<^verbatim>\<open>(label, key)\<close> pairs, in the order of the source. A key
  ending in \<^verbatim>\<open>_dummy\<close> marks a subtotal row.
\<close>

definition fields_donen :: "(ustr \<times> ustr) list" where
  "fields_donen =
    [(asc ''Nakit ve Nakit Benzerleri'',
      asc ''nakitVeNakitBenzerleri''),
     (tr ''Gayrimenkul Projeleri Kapsam~inda A~c~ilan Nakit Hesaplar~i'',
      asc ''gayrimenkulProjeleriNakitHesaplari''),
     (tr ''Finansal Yat~ir~imlar'',
      asc ''finansalYatirimlar''),
     (tr ''Teminata Verilen Finansal Varl~iklar'',
      asc ''teminataVerilenFinansalVarliklar''),
     (asc ''Ticari Alacaklar'',
      asc ''ticariAlacaklarDonen''),
     (tr ''Finans Sekt~or~u Faaliyetlerinden Alacaklar'',
      asc ''finansSektoruFaaliyetlerindenAlacaklarDonen''),
     (tr ''T~urkiye Cumhuriyet Merkez Bankas~i Hesab~i'',
      asc ''tcmbHesabi''),
     (tr ''Di~ger Alacaklar'',
      asc ''digerAlacaklarDonen''),
     (tr ''M~u~steri S~ozle~smelerinden Do~gan Varl~iklar'',
      asc ''musteriSozlesmelerindenDoganVarliklarDonen''),
     (tr ''~Imtiyaz S~ozle~smelerine ~Ili~skin Finansal Varl~iklar'',
      asc ''imtiyazSozlesmelerineIliskinFinansalVarliklarDonen''),
     (tr ''T~urev Ara~clar'',
      asc ''turevAraclarDonen''),
     (asc ''Stoklar'',
      asc ''stoklar''),
     (asc ''Proje Halindeki Stoklar'',
      asc ''projeHalindekiStoklar''),
     (tr ''Canl~i Varl~iklar'',
      asc ''canliVarliklarDonen''),
     (tr ''Pe~sin ~Odenmi~s Giderler'',
      asc ''pesinOdenmisGiderlerDonen''),
     (tr ''Ertelenmi~s Sigortac~il~ik ~Uretim Giderleri'',
      asc ''ertelenmisSigortacilikUretimGiderleri''),
     (tr ''Cari D~onem Vergisiyle ~Ilgili Varl~iklar'',
      asc ''cariDonemVergisiyleIlgiliVarliklarDonen''),
     (tr ''Nakdi D~i~s~i Serbest Kullan~ilabilir Teminatlar'',
      asc ''nakdiDisiSerbestKullanilabilirTeminatlarDonen''),
     (tr ''Di~ger D~onen Varl~iklar'',
      asc ''digerDonenVarliklar''),
     (tr ''Sat~i~s Amac~iyla Elde Tutulan Duran Varl~iklar'',
      asc ''satisAmaciylaEldeTutulanDuranVarliklar''),
     (tr ''Ortaklara Da~g~it~ilmak ~Uzere Elde Tutulan Duran Varl~iklar'',
      asc ''ortaklaraDagitilmakUzereEldeTutulanDuranVarliklar''),
     (tr ''Toplam D~onen Varl~iklar'',
      asc ''toplamDonenVarliklar_dummy'')]"

definition fields_duran :: "(ustr \<times> ustr) list" where
  "fields_duran =
    [(tr ''Finansal Yat~ir~imlar'',
      asc ''finansalYatirimlarDuran''),
     (tr ''~I~stirakler, ~I~s Ortakl~iklar~i ve Ba~gl~i Ortakl~iklardaki Yat~ir~imlar'',
      asc ''istirakIsOrtaklikBagliOrtaklikYatirimlari''),
     (asc ''Ticari Alacaklar'',
      asc ''ticariAlacaklar''),
     (tr ''Finans Sekt~or~u Faaliyetlerinden Alacaklar'',
      asc ''finansSektoruFaaliyetlerindenAlacaklarDuran''),
     (tr ''Di~ger Alacaklar'',
      asc ''digerAlacaklarDuran''),
     (tr ''M~u~steri S~ozle~smelerinden Do~gan Varl~iklar'',
      asc ''musteriSozlesmelerindenDoganVarliklarDuran''),
     (tr ''~Imtiyaz S~ozle~smelerine ~Ili~skin Finansal Varl~iklar'',
      asc ''imtiyazSozlesmelerineIliskinFinansalVarliklarDuran''),
     (tr ''T~urev Ara~clar'',
      asc ''turevAraclarDuran''),
     (asc ''Stoklar'',
      asc ''stoklarDuran''),
     (tr ''~Ozkaynak Y~ontemiyle De~gerlenen Yat~ir~imlar'',
      asc ''ozkaynakYontemiyleDegerlenenYatirimlar''),
     (tr ''Canl~i Varl~iklar'',
      asc ''canliVarliklarDuran''),
     (tr ''Yat~ir~im Ama~cl~i Gayrimenkuller'',
      asc ''yatirimAmacliGayrimenkuller''),
     (tr ''Proje Halindeki Yat~ir~im Ama~cl~i Gayrimenkuller'',
      asc ''projeHalindekiYatirimAmacliGayrimenkuller''),
     (tr ''Maddi Duran Varl~iklar'',
      asc ''maddiDuranVarliklar''),
     (tr ''Kullan~im Hakk~i Varl~iklar~i'',
      asc ''kullanimHakkiVarliklari''),
     (tr ''Maddi Olmayan Duran Varl~iklar'',
      asc ''maddiOlmayanDuranVarliklar''),
     (tr ''Pe~sin ~Odenmi~s Giderler'',
      asc ''pesinOdenmisGiderlerDuran''),
     (tr ''Ertelenmi~s Vergi Varl~i~g~i'',
      asc ''ertelenmisVergiVarligiDuran''),
     (tr ''Cari D~onem Vergisiyle ~Ilgili Duran Varl~iklar'',
      asc ''cariDonemVergisiyleIlgiliDuranVarliklar''),
     (tr ''Nakdi D~i~s~i Serbest Kullan~ilabilir Teminatlar'',
      asc ''nakdiDisiSerbestKullanilabilirTeminatlarDuran''),
     (tr ''Di~ger Duran Varl~iklar'',
      asc ''digerDuranVarliklar''),
     (tr ''Toplam Duran Varl~iklar'',
      asc ''toplamDuranVarliklar_dummy'')]"

definition fields_kv :: "(ustr \<times> ustr) list" where
  "fields_kv =
    [(tr ''Finansal Bor~clar'',
      asc ''finansalBorclarKV''),
     (tr ''Di~ger Finansal Y~uk~uml~ul~ukler'',
      asc ''digerFinansalYukumluluklerKV''),
     (tr ''Ticari Bor~clar'',
      asc ''ticariBorclarKV''),
     (tr ''Finans Sekt~or~u Faaliyetlerinden Bor~clar'',
      asc ''finansSektoruFaaliyetlerindenBorclarKV''),
     (tr ''~Cal~i~sanlara Sa~glanan Faydalar Kapsam~inda Bor~clar'',
      asc ''calisanlaraSaglananFaydalarBorclarKV''),
     (tr ''Di~ger Bor~clar'',
      asc ''digerBorclarKV''),
     (tr ''M~u~steri S~ozle~smelerinden Do~gan Y~uk~uml~ul~ukler'',
      asc ''musteriSozlesmelerindenDoganYukumluluklerKV''),
     (tr ''~Ozkaynak Y~ontemiyle De~gerlenen Yat~ir~imlardan Y~uk~uml~ul~ukler'',
      asc ''ozkaynakYontemiyleDegerlenenYatirimlardanYukumluluklerKV''),
     (tr ''T~urev Ara~clar'',
      asc ''turevAraclarKV''),
     (tr ''Devlet Te~svik ve Yard~imlar~i'',
      asc ''devletTesvikYardimKV''),
     (tr ''Ertelenmi~s Gelirler'',
      asc ''ertelenmisGelirlerKV''),
     (tr ''D~onem Kar~i Vergi Y~uk~uml~ul~u~g~u'',
      asc ''donemKariVergiYukumluluguKV''),
     (tr ''K~isa Vadeli Kar~s~il~iklar'',
      asc ''kisaVadeliKarsiliklar''),
     (tr ''Di~ger K~isa Vadeli Y~uk~uml~ul~ukler'',
      asc ''digerKisaVadeliYukumlulukler''),
     (tr ''Sat~i~s Ama~cl~i S~in~ifland~ir~ilan Varl~ik Gruplar~ina ~Ili~skin Y~uk~uml~ul~ukler'',
      asc ''satisAmacliSiniflandirilanVarlikGruplarinaIliskinYukumlulukler''),
     (tr ''Ortaklara Da~g~it~ilmak ~Uzere Elde Tutulan Varl~ik Gruplar~ina ~Ili~skin Y~uk~uml~ul~ukler'',
      asc ''ortaklaraDagitilmakUzereEldeTutulanVarlikGruplarinaIliskinYukumlulukler''),
     (tr ''Toplam K~isa Vadeli Y~uk~uml~ul~ukler'',
      asc ''toplamKVY_dummy'')]"

definition fields_uv :: "(ustr \<times> ustr) list" where
  "fields_uv =
    [(tr ''Finansal Bor~clar'',
      asc ''finansalBorclarUV''),
     (tr ''Di~ger Finansal Y~uk~uml~ul~ukler'',
      asc ''digerFinansalYukumluluklerUV''),
     (tr ''Ticari Bor~clar'',
      asc ''ticariBorclarUV''),
     (tr ''Finans Sekt~or~u Faaliyetlerinden Bor~clar'',
      asc ''finansSektoruFaaliyetlerindenBorclarUV''),
     (tr ''~Cal~i~sanlara Sa~glanan Faydalar Kapsam~inda Bor~clar'',
      asc ''calisanlaraSaglananFaydalarBorclarUV''),
     (tr ''Di~ger Bor~clar'',
      asc ''digerBorclarUV''),
     (tr ''M~u~steri S~ozle~smelerinden Do~gan Y~uk~uml~ul~ukler'',
      asc ''musteriSozlesmelerindenDoganYukumluluklerUV''),
     (tr ''~Ozkaynak Y~ontemiyle De~gerlenen Yat~ir~imlardan Y~uk~uml~ul~ukler'',
      asc ''ozkaynakYontemiyleDegerlenenYatirimlardanYukumluluklerUV''),
     (tr ''T~urev Ara~clar'',
      asc ''turevAraclarUV''),
     (tr ''Devlet Te~svik ve Yard~imlar~i'',
      asc ''devletTesvikYardimUV''),
     (tr ''Ertelenmi~s Gelirler'',
      asc ''ertelenmisGelirlerUV''),
     (tr ''Cari D~onem Vergisiyle ~Ilgili Bor~clar'',
      asc ''cariDonemVergisiyleIlgiliBorclarUV''),
     (tr ''Ertelenmi~s Vergi Y~uk~uml~ul~u~g~u'',
      asc ''ertelenmisVergiYukumlulugu''),
     (tr ''Di~ger Uzun Vadeli Y~uk~uml~ul~ukler'',
      asc ''digerUzunVadeliYukumlulukler''),
     (tr ''Toplam Uzun Vadeli Y~uk~uml~ul~ukler'',
      asc ''toplamUVY_dummy'')]"

definition fields_oz :: "(ustr \<times> ustr) list" where
  "fields_oz =
    [(tr ''Ana Ortakl~i~ga Ait ~Ozkaynaklar'',
      asc ''anaOrtakligaAitOzkaynaklar''),
     (tr ''~Odenmi~s Sermaye'',
      asc ''odenmisSermaye''),
     (tr ''Sermaye D~uzeltme Farklar~i'',
      asc ''sermayeDuzeltmeFarklari''),
     (tr ''Birle~sme Dengele~stirme Hesab~i'',
      asc ''birlesmeDengeletirmeHesabi''),
     (tr ''Pay Sahiplerinin ~Ilave Sermaye Katk~ilar~i'',
      asc ''paySahipleriIlaveSermayeKatkilari''),
     (tr ''Sermaye Avans~i'',
      asc ''sermayeAvansi''),
     (tr ''Geri Al~inm~i~s Paylar (-)'',
      asc ''geriAlinmisPaylar''),
     (tr ''Kar~s~il~ikl~i ~I~stirak Sermaye D~uzeltmesi (-)'',
      asc ''karsilikliIstirakSermayeDuzeltmesi''),
     (tr ''Paylara ~Ili~skin Primler (iskontolar)'',
      asc ''paylaraIliskinPrimlerIskontolar''),
     (tr ''Ortak Kontrole Tabi Te~sebb~us veya ~I~sletmeleri ~I~ceren Birle~smelerin Etkisi'',
      asc ''ortakKontroleTabiBirlesmeEtkisi''),
     (tr ''Pay Bazl~i ~Odemeler (-)'',
      asc ''payBazliOdemeler''),
     (tr ''Kar veya Zararda Yeniden S~in~ifland~ir~ilmayacak Birikmi~s Di~ger Kapsaml~i Gelirler (Giderler)'',
      asc ''yenidenSiniflandirilmayacakBirikmisDigerKapsamliGelirGider''),
     (tr ''Kar veya Zararda Yeniden S~in~ifland~ir~ilacak Birikmi~s Di~ger Kapsaml~i Gelirler (Giderler)'',
      asc ''yenidenSiniflandirilacakBirikmisDigerKapsamliGelirGider''),
     (tr ''Kardan Ayr~ilan K~is~itlanm~i~s Yedekler'',
      asc ''kardanAyrilanKisitlanmisYedekler''),
     (tr ''Di~ger Yedekler'',
      asc ''digerYedekler''),
     (tr ''Ge~cmi~s Y~illar Kar/Zararlar~i'',
      asc ''gecmisYillarKarZarari''),
     (tr ''D~onem Net Kar~i'',
      asc ''donemKariZarari''),
     (tr ''Az~inl~ik Paylar~i'',
      asc ''kontrolGucuOlmayanPaylar''),
     (tr ''Toplam ~Ozkaynaklar'',
      asc ''ozkaynaklarToplam_dummy''),
     (asc ''Toplam Kaynaklar'',
      asc ''toplamKaynaklar_dummy''),
     (tr ''Hedge Dahil Net Yabanc~i Para Pozisyonu'',
      asc ''hedgeDahilNetYabanciParaPozisyonu'')]"

definition SECTION_FIELDS :: "(ustr \<times> ustr) list dict dict" where
  "SECTION_FIELDS =
     [(asc ''AKTIF'',
        [(tr ''D~onen Varl~iklar'', fields_donen),
         (tr ''Duran Varl~iklar'', fields_duran)]),
      (asc ''PASIF'',
        [(tr ''K~isa Vadeli Y~uk~uml~ul~ukler'', fields_kv),
         (tr ''Uzun Vadeli Y~uk~uml~ul~ukler'', fields_uv),
         (tr ''~Ozkaynaklar'', fields_oz)])]"

text \<open>
  \<^verbatim>\<open>SECTION_FIELDS[side][group]\<close>; both keys are constants of the source that
  the table holds, so the \<^verbatim>\<open>KeyError\<close> of a missing one never arises.
\<close>

definition section_group :: "ustr \<Rightarrow> ustr \<Rightarrow> (ustr \<times> ustr) list" where
  "section_group side grp = dict_get (dict_get SECTION_FIELDS side []) grp []"

definition is_dummy :: "ustr \<Rightarrow> bool" where
  "is_dummy key \<longleftrightarrow> py_endswith key (asc ''_dummy'')"

definition non_dummy_keys :: "(ustr \<times> ustr) list \<Rightarrow> ustr list" where
  "non_dummy_keys flds = map snd (filter (\<lambda>(label, k). \<not> is_dummy k) flds)"

definition DONEN_KEYS :: "ustr list" where
  "DONEN_KEYS = non_dummy_keys (section_group (asc ''AKTIF'') (tr ''D~onen Varl~iklar''))"

definition DURAN_KEYS :: "ustr list" where
  "DURAN_KEYS = non_dummy_keys (section_group (asc ''AKTIF'') (tr ''Duran Varl~iklar''))"

definition KV_KEYS :: "ustr list" where
  "KV_KEYS =
     non_dummy_keys (section_group (asc ''PASIF'') (tr ''K~isa Vadeli Y~uk~uml~ul~ukler''))"

definition UV_KEYS :: "ustr list" where
  "UV_KEYS =
     non_dummy_keys (section_group (asc ''PASIF'') (tr ''Uzun Vadeli Y~uk~uml~ul~ukler''))"

definition OZ_KEYS :: "ustr list" where
  "OZ_KEYS = non_dummy_keys (section_group (asc ''PASIF'') (tr ''~Ozkaynaklar''))"

section \<open>Section totals\<close>

text \<open>
  Each of the five sum functions runs the same loop over its key list:
  \<^verbatim>\<open>total += float(d.get(key, 0) or 0)\<close> inside \<^verbatim>\<open>try\<close>, skipping the key when
  the conversion raises. \<open>get_float\<close> is that expression, \<open>sum_keys\<close> the loop.
\<close>

definition get_float :: "entries \<Rightarrow> ustr \<Rightarrow> real option" where
  "get_float d key = py_float (py_or (dict_get d key (PInt 0)) (PInt 0))"

definition sum_keys :: "ustr list \<Rightarrow> entries \<Rightarrow> real" where
  "sum_keys keys d =
     fold (\<lambda>key total. case get_float d key of Some x \<Rightarrow> total + x | None \<Rightarrow> total) keys 0"

definition sum_donen_varliklar :: "entries \<Rightarrow> real" where
  "sum_donen_varliklar d = sum_keys DONEN_KEYS d"

definition sum_duran_varliklar :: "entries \<Rightarrow> real" where
  "sum_duran_varliklar d =
     (case get_float d (asc ''birikmiAmort'') of
        Some x \<Rightarrow> sum_keys DURAN_KEYS d - x
      | None \<Rightarrow> sum_keys DURAN_KEYS d)"

definition sum_kv_yabanci_kaynaklar :: "entries \<Rightarrow> real" where
  "sum_kv_yabanci_kaynaklar d = sum_keys KV_KEYS d"

definition sum_uv_yabanci_kaynaklar :: "entries \<Rightarrow> real" where
  "sum_uv_yabanci_kaynaklar d = sum_keys UV_KEYS d"

definition sum_oz_kaynaklar :: "entries \<Rightarrow> real" where
  "sum_oz_kaynaklar d = sum_keys OZ_KEYS d"

definition format_tl :: "real \<Rightarrow> ustr" where
  "format_tl v = py_replace 95 46 (py_replace 46 44 (py_replace 44 95 (fmt2_grouped v)))"

section \<open>Validation\<close>

text \<open>
  A finding is the dictionary \<^verbatim>\<open>{"tip": ..., "mesaj": ...}\<close>. The message is kept
  as its kind with the values the source formats into it; \<open>mesaj_text\<close> renders it
  to the text of the source.
\<close>

datatype mesaj =
    Bilanco_dengesizligi real real
  | Isletme_adi_bos
  | Negatif_deger ustr real
  | Likidite_dusuk real
  | Oz_kaynaklar_negatif
  | Bilanco_bos

fun mesaj_text :: "mesaj \<Rightarrow> ustr" where
  "mesaj_text (Bilanco_dengesizligi aktif pasif) =
     tr ''Bilan~co dengesizli~gi: Aktif ('' @ format_tl aktif @ asc '' TL) != Pasif (''
       @ format_tl pasif @ asc '' TL). Fark: '' @ format_tl (aktif - pasif) @ asc '' TL''"
| "mesaj_text Isletme_adi_bos = tr ''~I~sletme ad~i bo~s b~irak~ilmamal~id~ir.''"
| "mesaj_text (Negatif_deger key num) =
     key @ tr '' negatif de~ger i~ceriyor: '' @ str_float num"
| "mesaj_text (Likidite_dusuk oran) =
     tr ''Likidite oran~i d~u~s~uk ('' @ fmt2 oran
       @ tr ''). K~isa vadeli bor~clar d~onen varl~iklardan fazla.''"
| "mesaj_text Oz_kaynaklar_negatif =
     tr ''~Oz kaynaklar negatif! ~I~sletme mali s~ik~int~i i~cinde olabilir.''"
| "mesaj_text Bilanco_bos = tr ''Hi~cbir varl~ik girilmemi~s. Bilan~co bo~s g~or~un~uyor.''"

record finding =
  tip :: ustr
  mesaj :: mesaj

definition kritik :: "mesaj \<Rightarrow> finding" where
  "kritik m = \<lparr>tip = asc ''kritik'', mesaj = m\<rparr>"

definition uyari :: "mesaj \<Rightarrow> finding" where
  "uyari m = \<lparr>tip = asc ''uyari'', mesaj = m\<rparr>"

text \<open>The loop over \<^verbatim>\<open>d.items()\<close> that warns of negative amounts.\<close>

definition negatif_uyari :: "ustr \<times> pyval \<Rightarrow> finding list" where
  "negatif_uyari = (\<lambda>(key, v).
     if key = asc ''isletmeAdi'' \<or> key = asc ''bilancoTarihi'' \<or> key = asc ''birikmiAmort''
     then []
     else (case py_float v of
             None \<Rightarrow> []
           | Some num \<Rightarrow> if num < 0 then [uyari (Negatif_deger key num)] else []))"

definition negatif_uyarilar :: "entries \<Rightarrow> finding list" where
  "negatif_uyarilar d = concat (map negatif_uyari d)"

definition likidite_orani :: "entries \<Rightarrow> real" where
  "likidite_orani d =
     sum_donen_varliklar d
       / (if sum_kv_yabanci_kaynaklar d \<noteq> 0 then sum_kv_yabanci_kaynaklar d else 1)"

definition aktif_toplam :: "entries \<Rightarrow> real" where
  "aktif_toplam d = sum_donen_varliklar d + sum_duran_varliklar d"

definition pasif_toplam :: "entries \<Rightarrow> real" where
  "pasif_toplam d =
     sum_kv_yabanci_kaynaklar d + sum_uv_yabanci_kaynaklar d + sum_oz_kaynaklar d"

definition validate :: "entries \<Rightarrow> finding list" where
  "validate d =
       (if \<bar>aktif_toplam d - pasif_toplam d\<bar> > 0.01
        then [kritik (Bilanco_dengesizligi (aktif_toplam d) (pasif_toplam d))] else [])
     @ (if py_strip (py_str (dict_get d (asc ''isletmeAdi'') (PStr []))) = []
        then [uyari Isletme_adi_bos] else [])
     @ negatif_uyarilar d
     @ (if likidite_orani d < 1.0 then [uyari (Likidite_dusuk (likidite_orani d))] else [])
     @ (if sum_oz_kaynaklar d < 0 then [kritik Oz_kaynaklar_negatif] else [])
     @ (if aktif_toplam d = 0 then [uyari Bilanco_bos] else [])"

section \<open>The document\<close>

text \<open>
  \<^verbatim>\<open>build_mongo_like_document\<close> returns a nested dictionary. Its leaves are
  values of the entry mapping, numbers, strings, and the list of findings. The time
  stamp \<^verbatim>\<open>datetime.now().isoformat()\<close> is an argument.
\<close>

datatype doc = DVal pyval | DErrs "finding list" | DDict "(ustr \<times> doc) list"

definition doc_items :: "entries \<Rightarrow> string list \<Rightarrow> (ustr \<times> doc) list" where
  "doc_items d keys = map (\<lambda>k. (asc k, DVal (dict_get d (asc k) (PInt 0)))) keys"

definition build_mongo_like_document :: "ustr \<Rightarrow> entries \<Rightarrow> finding list \<Rightarrow> doc" where
  "build_mongo_like_document now d errors =
     (let donen = sum_donen_varliklar d;
          duran = sum_duran_varliklar d;
          aktif = donen + duran;
          kv = sum_kv_yabanci_kaynaklar d;
          uv = sum_uv_yabanci_kaynaklar d;
          oz = sum_oz_kaynaklar d;
          pasif = kv + uv + oz;
          likidite = donen / (if kv \<noteq> 0 then kv else 1);
          ozkaynaklar_orani = (if aktif \<noteq> 0 then oz / aktif * 100 else 0);
          borc_orani = (if aktif \<noteq> 0 then (kv + uv) / aktif * 100 else 0)
      in DDict
        [(asc ''_id'', DVal PNone),
         (asc ''isletmeBilgileri'', DDict
            [(asc ''ad'', DVal (dict_get d (asc ''isletmeAdi'') (PStr []))),
             (asc ''tarih'', DVal (dict_get d (asc ''bilancoTarihi'') (PStr [])))]),
         (asc ''aktif'', DDict
            [(asc ''donenVarliklar'', DDict
                (doc_items d [''kasa'', ''bankalar'', ''alicilar'', ''alacakSenetleri'',
                   ''verilenDepozito'', ''digerAlacaklar'', ''ticariMallar'', ''yariMamul'',
                   ''mamul'', ''digerDonenVarliklar'']
                 @ [(asc ''toplam'', DVal (PFloat donen))])),
             (asc ''duranVarliklar'', DDict
                (doc_items d [''ticariAlacaklar'', ''istirakler'', ''bagliOrtakliklar'',
                   ''arazi'', ''binalar'', ''tesisatMakineler'', ''demirbaslar'', ''tasitlar'',
                   ''birikmiAmort'', ''digerDuranVarliklar'']
                 @ [(asc ''toplam'', DVal (PFloat duran))])),
             (asc ''toplam'', DVal (PFloat aktif))]),
         (asc ''pasif'', DDict
            [(asc ''kisaVadeliYabanciKaynaklar'', DDict
                (doc_items d [''bankKredileri'', ''saticilar'', ''borcSenetleri'',
                   ''digerBorclar'', ''odenecekVergiler'']
                 @ [(asc ''toplam'', DVal (PFloat kv))])),
             (asc ''uzunVadeliYabanciKaynaklar'', DDict
                (doc_items d [''uzunVadeBankKredileri'', ''tahviller'', ''uzunVadeBorclar'']
                 @ [(asc ''toplam'', DVal (PFloat uv))])),
             (asc ''ozKaynaklar'', DDict
                (doc_items d [''odenmisSermaye'', ''sermayeYedekleri'', ''karYedekleri'',
                   ''gecmisYilKarlari'', ''donemNetKari'']
                 @ [(asc ''toplam'', DVal (PFloat oz))])),
             (asc ''toplam'', DVal (PFloat pasif))]),
         (asc ''rasyolar'', DDict
            [(asc ''likiditeOrani'', DVal (PStr (fmt2 likidite))),
             (asc ''ozkaynaklarOrani'', DVal (PStr (fmt2 ozkaynaklar_orani))),
             (asc ''borcOrani'', DVal (PStr (fmt2 borc_orani)))]),
         (asc ''kayitTarihi'', DVal (PStr now)),
         (asc ''dogrulama'', DDict
            [(asc ''durumu'',
                DVal (PStr (if length errors = 0 then asc ''basarili'' else asc ''uyarilarla''))),
             (asc ''hatalar'', DErrs errors)])])"

text \<open>\<^verbatim>\<open>doc[k]\<close> on a nested dictionary; \<open>None\<close> where the key is missing.\<close>

fun doc_get :: "doc \<Rightarrow> ustr \<Rightarrow> doc option" where
  "doc_get (DDict kvs) k = assoc kvs k"
| "doc_get (DVal v) k = None"
| "doc_get (DErrs es) k = None"

definition doc_path :: "doc \<Rightarrow> ustr \<Rightarrow> ustr \<Rightarrow> doc option" where
  "doc_path dc k1 k2 = (case doc_get dc k1 of Some sub \<Rightarrow> doc_get sub k2 | None \<Rightarrow> None)"

section \<open>Spreadsheets\<close>

text \<open>
  A worksheet is the list of its rows, each the list of the cell values it stores; a
  workbook is its sheets by name, the first one apart (an \<^verbatim>\<open>openpyxl\<close> workbook
  always has one). \<^verbatim>\<open>ws.max_column\<close> and \<^verbatim>\<open>ws.max_row\<close> are at least 1,
  and every row the library hands out, by \<^verbatim>\<open>ws[r]\<close> or \<^verbatim>\<open>ws.iter_rows\<close>,
  has \<^verbatim>\<open>max_column\<close> cells, the missing ones \<^verbatim>\<open>None\<close>.
\<close>

type_synonym sheet = "pyval list list"

record workbook =
  wb_first :: "ustr \<times> sheet"
  wb_rest :: "(ustr \<times> sheet) list"

definition wb_sheets :: "workbook \<Rightarrow> (ustr \<times> sheet) list" where
  "wb_sheets wb = wb_first wb # wb_rest wb"

definition max_column :: "sheet \<Rightarrow> nat" where
  "max_column ws = fold (\<lambda>row m. max (length row) m) ws 1"

definition pad_row :: "nat \<Rightarrow> pyval list \<Rightarrow> pyval list" where
  "pad_row n row = row @ replicate (n - length row) PNone"

definition sheet_rows :: "sheet \<Rightarrow> pyval list list" where
  "sheet_rows ws =
     (if ws = [] then [replicate (max_column ws) PNone] else map (pad_row (max_column ws)) ws)"

text \<open>\<^verbatim>\<open>ws[ref].value\<close> for the cell in row \<open>r\<close> and column \<open>c\<close>, counted from 1.\<close>

definition cell_value :: "sheet \<Rightarrow> nat \<Rightarrow> nat \<Rightarrow> pyval" where
  "cell_value ws r c =
     (if 1 \<le> r \<and> r \<le> length ws \<and> 1 \<le> c \<and> c \<le> length (ws ! (r - 1))
      then ws ! (r - 1) ! (c - 1) else PNone)"

subsection \<open>Writing\<close>

definition row_amount :: "entries \<Rightarrow> ustr \<Rightarrow> real" where
  "row_amount d key = (case get_float d key of Some x \<Rightarrow> x | None \<Rightarrow> 0)"

definition group_rows ::
  "entries \<Rightarrow> ustr \<Rightarrow> ustr \<times> (ustr \<times> ustr) list \<Rightarrow> (ustr \<times> ustr \<times> ustr \<times> ustr \<times> real) list"
where
  "group_rows d side = (\<lambda>(grp, flds).
     map (\<lambda>(label, key). (side, grp, label, key, row_amount d key))
       (filter (\<lambda>(label, key). \<not> is_dummy key) flds))"

definition build_excel_rows_from_data ::
  "entries \<Rightarrow> (ustr \<times> ustr \<times> ustr \<times> ustr \<times> real) list"
where
  "build_excel_rows_from_data d =
     concat (map (\<lambda>side. concat (map (group_rows d side) (dict_get SECTION_FIELDS side [])))
       [asc ''AKTIF'', asc ''PASIF''])"

definition excel_row :: "ustr \<times> ustr \<times> ustr \<times> ustr \<times> real \<Rightarrow> pyval list" where
  "excel_row = (\<lambda>(side, grp, label, key, v).
     [PStr side, PStr grp, PStr label, PStr key, PFloat v])"

text \<open>
  \<^verbatim>\<open>wb.save\<close> writes the file and \<^verbatim>\<open>load_workbook\<close> reads it. A string cell
  comes back as it was written. A float cell does not: the file holds the text
  \<^verbatim>\<open>'%.16g' % value\<close>, the amount rounded to 16 significant digits, and the reader
  makes an \<^verbatim>\<open>int\<close> of a text without point and exponent and a \<^verbatim>\<open>float\<close> of
  any other.

  \<open>decimal_exponent x\<close> is the exponent of the leading digit of \<open>x\<close>. Below 1 it is
  found by scaling up; a float that is not 0 is at least \<open>5e-324\<close>, so 324 steps
  reach every exponent.
\<close>

fun lead_zeros :: "nat \<Rightarrow> real \<Rightarrow> nat" where
  "lead_zeros 0 x = 0"
| "lead_zeros (Suc n) x = (if 1 \<le> x then 0 else Suc (lead_zeros n (10 * x)))"

definition decimal_exponent :: "real \<Rightarrow> int" where
  "decimal_exponent x =
     (if 1 \<le> \<bar>x\<bar> then int (length (digits (nat \<lfloor>\<bar>x\<bar>\<rfloor>))) - 1
      else - int (lead_zeros 324 \<bar>x\<bar>))"

definition scale10 :: "int \<Rightarrow> real \<Rightarrow> real" where
  "scale10 k x = (if 0 \<le> k then x * 10 ^ nat k else x / 10 ^ nat (- k))"

text \<open>\<^verbatim>\<open>float('%.16g' % x)\<close>\<close>

definition round_sig16 :: "real \<Rightarrow> real" where
  "round_sig16 x =
     (if x = 0 then 0
      else (let k = 15 - decimal_exponent x
            in sgn x * scale10 (- k) (real (round_half_even (scale10 k \<bar>x\<bar>)))))"

text \<open>
  The value of a float cell after the file is read. The text has neither point nor
  exponent when the rounded amount is a whole number below \<open>10 ^ 16\<close>.
\<close>

definition stored_number :: "real \<Rightarrow> pyval" where
  "stored_number x =
     (let y = round_sig16 x
      in if y = of_int \<lfloor>y\<rfloor> \<and> \<bar>y\<bar> < 10 ^ 16 then PInt \<lfloor>y\<rfloor> else PFloat y)"

fun stored_cell :: "pyval \<Rightarrow> pyval" where
  "stored_cell (PFloat x) = stored_number x"
| "stored_cell v = v"

definition stored_row :: "ustr \<times> ustr \<times> ustr \<times> ustr \<times> real \<Rightarrow> pyval list" where
  "stored_row r = map stored_cell (excel_row r)"

text \<open>
  \<^verbatim>\<open>save_to_excel\<close>: the workbook that \<^verbatim>\<open>load_workbook\<close> reads from the file
  written. The cells written are strings, but for the amounts.
\<close>

definition save_to_excel :: "entries \<Rightarrow> workbook" where
  "save_to_excel d =
     \<lparr>wb_first =
        (tr ''Bilan~co'',
         [PStr (asc ''Taraf''), PStr (asc ''Grup''), PStr (asc ''Etiket''),
          PStr (asc ''Anahtar''), PStr (asc ''Tutar'')]
           # map stored_row (build_excel_rows_from_data d)),
      wb_rest =
        [(asc ''Bilgi'',
          [[PStr (tr ''~I~sletme Ad~i''),
            PStr (py_str (dict_get d (asc ''isletmeAdi'') (PStr [])))],
           [PStr (tr ''Bilan~co Tarihi''),
            PStr (py_str (dict_get d (asc ''bilancoTarihi'') (PStr [])))]])]\<rparr>"

subsection \<open>Reading: the layout\<close>

text \<open>
  The variables \<^verbatim>\<open>header_row_idx\<close>, \<^verbatim>\<open>is_simple_format\<close> and the three
  column numbers. A column that the source has not assigned is 0 here; columns count
  from 1.
\<close>

record layout =
  is_simple_format :: bool
  header_row_idx :: nat
  key_col :: nat
  val_col :: nat
  label_col :: nat

text \<open>\<^verbatim>\<open>str(c.value).strip().lower() if c.value is not None else ""\<close>\<close>

definition header_cell :: "pyval \<Rightarrow> ustr" where
  "header_cell v = (if v \<noteq> PNone then py_lower (py_strip (py_str v)) else [])"

fun index_of :: "'a list \<Rightarrow> 'a \<Rightarrow> nat" where
  "index_of [] x = 0"
| "index_of (y # ys) x = (if y = x then 0 else Suc (index_of ys x))"

text \<open>
  The loop over \<^verbatim>\<open>r_idx\<close> that looks for the header row, from row \<open>r_idx\<close> on;
  it stops at the first row that has both \<^verbatim>\<open>anahtar\<close> and \<^verbatim>\<open>tutar\<close>.
\<close>

fun scan_header :: "nat \<Rightarrow> pyval list list \<Rightarrow> layout \<Rightarrow> layout" where
  "scan_header r_idx [] lay = lay"
| "scan_header r_idx (row # rows) lay =
     (let row_vals = map header_cell row
      in if list_ex (\<lambda>x. x \<noteq> []) row_vals
            \<and> asc ''anahtar'' \<in> set row_vals \<and> asc ''tutar'' \<in> set row_vals
         then lay\<lparr>header_row_idx := r_idx,
                  key_col := index_of row_vals (asc ''anahtar'') + 1,
                  val_col := index_of row_vals (asc ''tutar'') + 1,
                  label_col := (if asc ''etiket'' \<in> set row_vals
                                then index_of row_vals (asc ''etiket'') + 1 else 3)\<rparr>
         else scan_header (Suc r_idx) rows lay)"

text \<open>
  Lines 388 to 414. In the branch for more than two columns \<^verbatim>\<open>is_simple_format\<close>
  is still \<^verbatim>\<open>False\<close> after the loop, so the assignment of the default columns
  under \<^verbatim>\<open>if not is_simple_format\<close> runs whether or not a header row was found.
\<close>

definition detect_layout :: "sheet \<Rightarrow> layout" where
  "detect_layout ws =
     (let start = \<lparr>is_simple_format = False, header_row_idx = 1,
                   key_col = 0, val_col = 0, label_col = 0\<rparr>
      in if max_column ws \<le> 2
         then start\<lparr>is_simple_format := True, label_col := 1, val_col := 2\<rparr>
         else (let found = scan_header 1 (take 10 (sheet_rows ws)) start
               in if \<not> is_simple_format found
                  then found\<lparr>key_col := 4, val_col := 5, label_col := 3\<rparr>
                  else found))"

subsection \<open>Reading: labels\<close>

definition allowed :: ustr where
  "allowed = asc ''abcdefghijklmnopqrstuvwxyz0123456789 ''"

text \<open>
  \<^verbatim>\<open>_normalize\<close>: strip, lower, decompose, drop the combining marks, replace
  whatever is not allowed by a space, and join the words by single spaces.
\<close>

definition normalize_label :: "ustr \<Rightarrow> ustr" where
  "normalize_label s =
     py_join [32] (py_split
       (map (\<lambda>ch. if ch \<in> set allowed then ch else 32)
         (filter (\<lambda>ch. \<not> combining ch) (nfkd (py_lower (py_strip s))))))"

text \<open>What the steps between \<^verbatim>\<open>strip\<close> and \<^verbatim>\<open>split\<close> make of one character.\<close>

definition normalize_char :: "nat \<Rightarrow> ustr" where
  "normalize_char c =
     map (\<lambda>ch. if ch \<in> set allowed then ch else 32)
       (filter (\<lambda>ch. \<not> combining ch) (nfkd (py_lower_char c)))"

definition STRICT_LABELS :: bool where
  "STRICT_LABELS = True"

text \<open>The groups of both sides, in the order the loops over \<^verbatim>\<open>SECTION_FIELDS\<close> visit them.\<close>

definition all_groups :: "(ustr \<times> (ustr \<times> ustr) list) list" where
  "all_groups =
     concat (map (\<lambda>side. dict_get SECTION_FIELDS side []) [asc ''AKTIF'', asc ''PASIF''])"

definition add_label :: "ustr \<times> ustr \<Rightarrow> ustr dict \<Rightarrow> ustr dict" where
  "add_label = (\<lambda>(label, key) m.
     if is_dummy key then m else dict_set m (normalize_label label) key)"

definition label_to_key :: "ustr dict" where
  "label_to_key = fold (\<lambda>(grp, flds) m. fold add_label flds m) all_groups []"

definition add_group :: "ustr \<times> (ustr \<times> ustr) list \<Rightarrow> ustr dict dict \<Rightarrow> ustr dict dict" where
  "add_group = (\<lambda>(grp, flds) m.
     fold (\<lambda>(label, key) m'.
            if is_dummy key then m'
            else dict_set m' (normalize_label grp)
                   (dict_set (dict_get m' (normalize_label grp) []) (normalize_label label) key))
       flds
       (if assoc m (normalize_label grp) = None then dict_set m (normalize_label grp) [] else m))"

definition group_label_to_key_map :: "ustr dict dict" where
  "group_label_to_key_map = fold add_group all_groups []"

definition group_names_norm :: "ustr list" where
  "group_names_norm = map (\<lambda>(grp, flds). normalize_label grp) all_groups"

definition all_labels :: "ustr list" where
  "all_labels = map fst (concat (map snd all_groups))"

definition alias_pairs :: "(ustr \<times> ustr) list" where
  "alias_pairs =
     [(asc ''Donem Kari Vergi Yukumlulugu'',
       tr ''D~onem Kar~i Vergi Y~uk~uml~ul~u~g~u''),
      (asc ''Donem Kar Vergi Yukumlulugu'',
       tr ''D~onem Kar~i Vergi Y~uk~uml~ul~u~g~u''),
      (asc ''Cari Donem Vergisiyle ilgili Varliklar'',
       tr ''Cari D~onem Vergisiyle ~Ilgili Varl~iklar''),
      (asc ''Cari Donem Vergisiyle ilgili Borclar'',
       tr ''Cari D~onem Vergisiyle ~Ilgili Bor~clar''),
      (asc ''Ozkaynak Yontemiyle Degerlenen Yatirimlardan Yukumlulukler'',
       tr ''~Ozkaynak Y~ontemiyle De~gerlenen Yat~ir~imlardan Y~uk~uml~ul~ukler''),
      (asc ''Ozkaynak Yontemiyle Degerlenen Yatirimlar'',
       tr ''~Ozkaynak Y~ontemiyle De~gerlenen Yat~ir~imlar''),
      (asc ''Pesin Odenmis Giderler'',
       tr ''Pe~sin ~Odenmi~s Giderler''),
      (asc ''Ertelenmis Vergi Varligi'',
       tr ''Ertelenmi~s Vergi Varl~i~g~i''),
      (asc ''Ertelenmis Gelirler'',
       tr ''Ertelenmi~s Gelirler''),
      (asc ''Turkiye Cumhuriyeti Merkez Bankasi Hesabi'',
       tr ''T~urkiye Cumhuriyet Merkez Bankas~i Hesab~i''),
      (tr ''T~urkiye Cumhuriyeti Merkez Bankas~i Hesab~i'',
       tr ''T~urkiye Cumhuriyet Merkez Bankas~i Hesab~i'')]"

text \<open>\<^verbatim>\<open>_alias(src, target_label)\<close>, on the alias table built so far.\<close>

definition add_alias :: "ustr \<times> ustr \<Rightarrow> ustr dict \<Rightarrow> ustr dict" where
  "add_alias = (\<lambda>(src, target_label) m.
     if target_label \<in> set all_labels
     then (case assoc label_to_key (normalize_label target_label) of
             Some key \<Rightarrow> if key \<noteq> [] then dict_set m (normalize_label src) key else m
           | None \<Rightarrow> m)
     else m)"

definition alias_to_key :: "ustr dict" where
  "alias_to_key = fold add_alias alias_pairs []"

subsection \<open>Reading: the rows\<close>

text \<open>\<^verbatim>\<open>v is None or str(v).strip() == ""\<close>\<close>

definition is_blank :: "pyval \<Rightarrow> bool" where
  "is_blank v \<longleftrightarrow> v = PNone \<or> py_strip (py_str v) = []"

text \<open>
  The amount stored for a row: \<^verbatim>\<open>float(val)\<close> of a cell that is not blank, and
  \<^verbatim>\<open>0.0\<close> for a blank one or when the conversion raises.
\<close>

definition cell_amount :: "pyval \<Rightarrow> real" where
  "cell_amount v =
     (if \<not> is_blank v then (case py_float v of Some x \<Rightarrow> x | None \<Rightarrow> 0) else 0)"

text \<open>
  The key of a normalised label: the table of the current group when it has the label,
  else the table of all groups. Both formats run these lines.
\<close>

definition lookup_label :: "ustr option \<Rightarrow> ustr \<Rightarrow> ustr option" where
  "lookup_label cg nrm =
     (case cg of
        None \<Rightarrow> assoc label_to_key nrm
      | Some g \<Rightarrow>
          if g \<noteq> [] \<and> assoc (dict_get group_label_to_key_map g []) nrm \<noteq> None
          then assoc (dict_get group_label_to_key_map g []) nrm
          else assoc label_to_key nrm)"

record loop_state =
  current_group :: "ustr option"
  loaded :: entries

text \<open>
  One row of the two-column format. The branch for approximate matches is guarded by
  \<^verbatim>\<open>not STRICT_LABELS\<close> and never runs.
\<close>

definition simple_step :: "loop_state \<Rightarrow> pyval list \<Rightarrow> loop_state" where
  "simple_step st row =
     (let label = (if 1 \<le> length row then row ! 0 else PNone);
          v = (if 2 \<le> length row then row ! 1 else PNone)
      in if label = PNone then st
         else if normalize_label (py_str label) \<in> set group_names_norm \<and> is_blank v
         then st\<lparr>current_group := Some (normalize_label (py_str label))\<rparr>
         else (case lookup_label (current_group st) (normalize_label (py_str label)) of
                 None \<Rightarrow> st
               | Some mapped \<Rightarrow>
                   st\<lparr>loaded := dict_set (loaded st) mapped (PFloat (cell_amount v))\<rparr>))"

text \<open>\<^verbatim>\<open>_pick_label_value\<close>: the first text cell and the last cell that converts to a float.\<close>

fun first_float :: "pyval list \<Rightarrow> pyval" where
  "first_float [] = PNone"
| "first_float (v # vs) = (case py_float v of Some x \<Rightarrow> PFloat x | None \<Rightarrow> first_float vs)"

fun first_text :: "pyval list \<Rightarrow> pyval" where
  "first_text [] = PNone"
| "first_text (PStr s # vs) = (if py_strip s \<noteq> [] then PStr s else first_text vs)"
| "first_text (v # vs) = first_text vs"

definition pick_label_value :: "pyval list \<Rightarrow> pyval \<times> pyval" where
  "pick_label_value row_vals =
     (let non_empty = filter (\<lambda>v. \<not> is_blank v) row_vals
      in if non_empty = [] then (PNone, PNone)
         else (first_text non_empty, first_float (rev non_empty)))"

text \<open>
  The key for a row without a key cell: by label, then by alias. The branch for
  approximate matches never runs here either.
\<close>

definition key_of_label :: "ustr option \<Rightarrow> pyval \<Rightarrow> pyval" where
  "key_of_label cg label =
     (if label \<noteq> PNone
      then (case lookup_label cg (normalize_label (py_str label)) of
              Some mapped \<Rightarrow> PStr mapped
            | None \<Rightarrow>
                (case assoc alias_to_key (normalize_label (py_str label)) of
                   Some mapped \<Rightarrow> PStr mapped
                 | None \<Rightarrow> PNone))
      else PNone)"

text \<open>One row of the format with more than two columns.\<close>

definition detailed_step :: "layout \<Rightarrow> loop_state \<Rightarrow> pyval list \<Rightarrow> loop_state" where
  "detailed_step lay st row =
     (let key = (if key_col lay \<le> length row then row ! (key_col lay - 1) else PNone);
          v = (if val_col lay \<le> length row then row ! (val_col lay - 1) else PNone);
          label = (if label_col lay \<le> length row then row ! (label_col lay - 1) else PNone)
      in if label \<noteq> PNone \<and> normalize_label (py_str label) \<in> set group_names_norm
            \<and> is_blank v \<and> is_blank key
         then st\<lparr>current_group := Some (normalize_label (py_str label))\<rparr>
         else (let picked = (if key = PNone \<and> (label = PNone \<or> is_blank v)
                             then pick_label_value row else (label, v));
                   key' = (if key = PNone then key_of_label (current_group st) (fst picked)
                           else key)
               in if key' = PNone then st
                  else st\<lparr>loaded :=
                         dict_set (loaded st) (py_str key') (PFloat (cell_amount (snd picked)))\<rparr>))"

definition row_step :: "layout \<Rightarrow> pyval list \<Rightarrow> loop_state \<Rightarrow> loop_state" where
  "row_step lay row st =
     (if row = [] then st
      else if is_simple_format lay then simple_step st row
      else detailed_step lay st row)"

text \<open>The entries read from the sheet \<^verbatim>\<open>Bilgi\<close>, when the workbook has one.\<close>

definition load_meta :: "workbook \<Rightarrow> entries" where
  "load_meta wb =
     (case assoc (wb_sheets wb) (asc ''Bilgi'') of
        None \<Rightarrow> []
      | Some meta \<Rightarrow>
          dict_set
            (dict_set [] (asc ''isletmeAdi'')
               (PStr (py_str (py_or (cell_value meta 1 2) (PStr [])))))
            (asc ''bilancoTarihi'')
            (PStr (py_str (py_or (cell_value meta 2 2) (PStr [])))))"

definition load_from_excel :: "workbook \<Rightarrow> entries" where
  "load_from_excel wb =
     (let ws = snd (wb_first wb);
          lay = detect_layout ws
      in loaded (fold (row_step lay) (drop (header_row_idx lay) (sheet_rows ws))
                   \<lparr>current_group = None, loaded = load_meta wb\<rparr>))"

section \<open>Auxiliary functions\<close>

text \<open>
  Two functions that only the proofs use: the fields of a group that enter the label
  tables, with their labels normalised, and the last pair of a list with a given key,
  which is what a loop of dictionary updates leaves for that key.
\<close>

definition norm_fields :: "(ustr \<times> ustr) list \<Rightarrow> (ustr \<times> ustr) list" where
  "norm_fields flds =
     map (\<lambda>(label, key). (normalize_label label, key))
       (filter (\<lambda>(label, key). \<not> is_dummy key) flds)"

fun find_last :: "'k \<Rightarrow> ('k \<times> 'v) list \<Rightarrow> 'v option" where
  "find_last k [] = None"
| "find_last k ((k', v) # kvs) =
     (case find_last k kvs of Some v' \<Rightarrow> Some v' | None \<Rightarrow> if k' = k then Some v else None)"

section \<open>Evaluation\<close>

text \<open>Facts that let the simplifier run the definitions on literals.\<close>

lemma of_char_ascii:
  "of_char CHR '' '' = (32::nat)"
  "of_char CHR ''!'' = (33::nat)"
  "of_char CHR ''#'' = (35::nat)"
  "of_char CHR ''$'' = (36::nat)"
  "of_char CHR ''%'' = (37::nat)"
  "of_char CHR ''&'' = (38::nat)"
  "of_char CHR ''('' = (40::nat)"
  "of_char CHR '')'' = (41::nat)"
  "of_char CHR ''*'' = (42::nat)"
  "of_char CHR ''+'' = (43::nat)"
  "of_char CHR '','' = (44::nat)"
  "of_char CHR ''-'' = (45::nat)"
  "of_char CHR ''.'' = (46::nat)"
  "of_char CHR ''/'' = (47::nat)"
  "of_char CHR ''0'' = (48::nat)"
  "of_char CHR ''1'' = (49::nat)"
  "of_char CHR ''2'' = (50::nat)"
  "of_char CHR ''3'' = (51::nat)"
  "of_char CHR ''4'' = (52::nat)"
  "of_char CHR ''5'' = (53::nat)"
  "of_char CHR ''6'' = (54::nat)"
  "of_char CHR ''7'' = (55::nat)"
  "of_char CHR ''8'' = (56::nat)"
  "of_char CHR ''9'' = (57::nat)"
  "of_char CHR '':'' = (58::nat)"
  "of_char CHR '';'' = (59::nat)"
  "of_char CHR ''<'' = (60::nat)"
  "of_char CHR ''='' = (61::nat)"
  "of_char CHR ''>'' = (62::nat)"
  "of_char CHR ''?'' = (63::nat)"
  "of_char CHR ''@'' = (64::nat)"
  "of_char CHR ''A'' = (65::nat)"
  "of_char CHR ''B'' = (66::nat)"
  "of_char CHR ''C'' = (67::nat)"
  "of_char CHR ''D'' = (68::nat)"
  "of_char CHR ''E'' = (69::nat)"
  "of_char CHR ''F'' = (70::nat)"
  "of_char CHR ''G'' = (71::nat)"
  "of_char CHR ''H'' = (72::nat)"
  "of_char CHR ''I'' = (73::nat)"
  "of_char CHR ''J'' = (74::nat)"
  "of_char CHR ''K'' = (75::nat)"
  "of_char CHR ''L'' = (76::nat)"
  "of_char CHR ''M'' = (77::nat)"
  "of_char CHR ''N'' = (78::nat)"
  "of_char CHR ''O'' = (79::nat)"
  "of_char CHR ''P'' = (80::nat)"
  "of_char CHR ''Q'' = (81::nat)"
  "of_char CHR ''R'' = (82::nat)"
  "of_char CHR ''S'' = (83::nat)"
  "of_char CHR ''T'' = (84::nat)"
  "of_char CHR ''U'' = (85::nat)"
  "of_char CHR ''V'' = (86::nat)"
  "of_char CHR ''W'' = (87::nat)"
  "of_char CHR ''X'' = (88::nat)"
  "of_char CHR ''Y'' = (89::nat)"
  "of_char CHR ''Z'' = (90::nat)"
  "of_char CHR ''['' = (91::nat)"
  "of_char CHR '']'' = (93::nat)"
  "of_char CHR ''^'' = (94::nat)"
  "of_char CHR ''_'' = (95::nat)"
  "of_char CHR ''a'' = (97::nat)"
  "of_char CHR ''b'' = (98::nat)"
  "of_char CHR ''c'' = (99::nat)"
  "of_char CHR ''d'' = (100::nat)"
  "of_char CHR ''e'' = (101::nat)"
  "of_char CHR ''f'' = (102::nat)"
  "of_char CHR ''g'' = (103::nat)"
  "of_char CHR ''h'' = (104::nat)"
  "of_char CHR ''i'' = (105::nat)"
  "of_char CHR ''j'' = (106::nat)"
  "of_char CHR ''k'' = (107::nat)"
  "of_char CHR ''l'' = (108::nat)"
  "of_char CHR ''m'' = (109::nat)"
  "of_char CHR ''n'' = (110::nat)"
  "of_char CHR ''o'' = (111::nat)"
  "of_char CHR ''p'' = (112::nat)"
  "of_char CHR ''q'' = (113::nat)"
  "of_char CHR ''r'' = (114::nat)"
  "of_char CHR ''s'' = (115::nat)"
  "of_char CHR ''t'' = (116::nat)"
  "of_char CHR ''u'' = (117::nat)"
  "of_char CHR ''v'' = (118::nat)"
  "of_char CHR ''w'' = (119::nat)"
  "of_char CHR ''x'' = (120::nat)"
  "of_char CHR ''y'' = (121::nat)"
  "of_char CHR ''z'' = (122::nat)"
  "of_char CHR ''{'' = (123::nat)"
  "of_char CHR ''|'' = (124::nat)"
  "of_char CHR ''}'' = (125::nat)"
  "of_char CHR ''~'' = (126::nat)"
  by simp_all

lemmas tr_eval = tr_def list.map decode.simps tr_letter_def of_char_ascii

lemmas asc_eval = asc_def list.map of_char_ascii

lemma asc_eq_iff: "asc a = asc b \<longleftrightarrow> a = b"
  unfolding asc_def by (simp add: inj_map_eq_map inj_on_def)

lemma nfkd_char_ascii: "c < 192 \<Longrightarrow> nfkd_char c = [c]"
  by (simp add: nfkd_char_def nfkd_table_def)

lemma allowed_iff:
  "ch \<in> set allowed \<longleftrightarrow> (97 \<le> ch \<and> ch \<le> 122) \<or> (48 \<le> ch \<and> ch \<le> 57) \<or> ch = 32"
  unfolding allowed_def by (simp add: asc_eval) arith

lemma normalize_char_ascii:
  "c < 128 \<Longrightarrow> normalize_char c =
     [if 65 \<le> c \<and> c \<le> 90 then c + 32
      else if (97 \<le> c \<and> c \<le> 122) \<or> (48 \<le> c \<and> c \<le> 57) \<or> c = 32 then c else 32]"
  by (auto simp add: normalize_char_def py_lower_char_def nfkd_def nfkd_char_ascii
      combining_def allowed_iff)

lemma normalize_char_tr:
  "normalize_char 231 = [99]" "normalize_char 199 = [99]"
  "normalize_char 287 = [103]" "normalize_char 286 = [103]"
  "normalize_char 305 = [32]" "normalize_char 304 = [105]"
  "normalize_char 246 = [111]" "normalize_char 214 = [111]"
  "normalize_char 351 = [115]" "normalize_char 350 = [115]"
  "normalize_char 252 = [117]" "normalize_char 220 = [117]"
  by (simp_all add: normalize_char_def py_lower_char_def nfkd_def nfkd_char_ascii
      nfkd_char_def nfkd_table_def combining_def allowed_iff)

lemma normalize_chars_concat:
  "map (\<lambda>ch. if ch \<in> set allowed then ch else 32)
     (filter (\<lambda>ch. \<not> combining ch) (nfkd (py_lower s))) = concat (map normalize_char s)"
  by (induction s) (simp_all add: py_lower_def nfkd_def normalize_char_def)

lemma normalize_label_chars:
  "normalize_label s = py_join [32] (split_ws [] (concat (map normalize_char (py_strip s))))"
  by (simp add: normalize_label_def py_split_def normalize_chars_concat)

lemma py_strip_id:
  assumes "s \<noteq> []" and "\<not> py_isspace (hd s)" and "\<not> py_isspace (last s)"
  shows "py_strip s = s"
proof -
  from assms have 1: "dropWhile py_isspace s = s"
    by (cases s) auto
  from assms have "dropWhile py_isspace (rev s) = rev s"
    by (cases "rev s") (auto simp: last_rev hd_rev)
  with 1 show ?thesis by (simp add: py_strip_def)
qed

lemmas norm_eval =
  tr_eval asc_eval normalize_label_chars py_strip_id py_isspace_def normalize_char_ascii normalize_char_tr

lemma is_dummy_eval:
  "is_dummy k \<longleftrightarrow>
     6 \<le> length k \<and> drop (length k - 6) k = [95, 100, 117, 109, 109, 121]"
proof -
  have 1: "asc ''_dummy'' = [95, 100, 117, 109, 109, 121]" by (simp add: asc_eval)
  have 2: "length [95::nat, 100, 117, 109, 109, 121] = 6" by simp
  show ?thesis unfolding is_dummy_def py_endswith_def 1 2 ..
qed

lemma norm_fields_donen:
  "norm_fields fields_donen =
    [(asc ''nakit ve nakit benzerleri'',
       asc ''nakitVeNakitBenzerleri''),
     (asc ''gayrimenkul projeleri kapsam nda ac lan nakit hesaplar'',
       asc ''gayrimenkulProjeleriNakitHesaplari''),
     (asc ''finansal yat r mlar'',
       asc ''finansalYatirimlar''),
     (asc ''teminata verilen finansal varl klar'',
       asc ''teminataVerilenFinansalVarliklar''),
     (asc ''ticari alacaklar'',
       asc ''ticariAlacaklarDonen''),
     (asc ''finans sektoru faaliyetlerinden alacaklar'',
       asc ''finansSektoruFaaliyetlerindenAlacaklarDonen''),
     (asc ''turkiye cumhuriyet merkez bankas hesab'',
       asc ''tcmbHesabi''),
     (asc ''diger alacaklar'',
       asc ''digerAlacaklarDonen''),
     (asc ''musteri sozlesmelerinden dogan varl klar'',
       asc ''musteriSozlesmelerindenDoganVarliklarDonen''),
     (asc ''imtiyaz sozlesmelerine iliskin finansal varl klar'',
       asc ''imtiyazSozlesmelerineIliskinFinansalVarliklarDonen''),
     (asc ''turev araclar'',
       asc ''turevAraclarDonen''),
     (asc ''stoklar'',
       asc ''stoklar''),
     (asc ''proje halindeki stoklar'',
       asc ''projeHalindekiStoklar''),
     (asc ''canl varl klar'',
       asc ''canliVarliklarDonen''),
     (asc ''pesin odenmis giderler'',
       asc ''pesinOdenmisGiderlerDonen''),
     (asc ''ertelenmis sigortac l k uretim giderleri'',
       asc ''ertelenmisSigortacilikUretimGiderleri''),
     (asc ''cari donem vergisiyle ilgili varl klar'',
       asc ''cariDonemVergisiyleIlgiliVarliklarDonen''),
     (asc ''nakdi d s serbest kullan labilir teminatlar'',
       asc ''nakdiDisiSerbestKullanilabilirTeminatlarDonen''),
     (asc ''diger donen varl klar'',
       asc ''digerDonenVarliklar''),
     (asc ''sat s amac yla elde tutulan duran varl klar'',
       asc ''satisAmaciylaEldeTutulanDuranVarliklar''),
     (asc ''ortaklara dag t lmak uzere elde tutulan duran varl klar'',
       asc ''ortaklaraDagitilmakUzereEldeTutulanDuranVarliklar'')]"
  by (simp add: norm_fields_def fields_donen_def is_dummy_eval norm_eval)

lemma norm_fields_duran:
  "norm_fields fields_duran =
    [(asc ''finansal yat r mlar'',
       asc ''finansalYatirimlarDuran''),
     (asc ''istirakler is ortakl klar ve bagl ortakl klardaki yat r mlar'',
       asc ''istirakIsOrtaklikBagliOrtaklikYatirimlari''),
     (asc ''ticari alacaklar'',
       asc ''ticariAlacaklar''),
     (asc ''finans sektoru faaliyetlerinden alacaklar'',
       asc ''finansSektoruFaaliyetlerindenAlacaklarDuran''),
     (asc ''diger alacaklar'',
       asc ''digerAlacaklarDuran''),
     (asc ''musteri sozlesmelerinden dogan varl klar'',
       asc ''musteriSozlesmelerindenDoganVarliklarDuran''),
     (asc ''imtiyaz sozlesmelerine iliskin finansal varl klar'',
       asc ''imtiyazSozlesmelerineIliskinFinansalVarliklarDuran''),
     (asc ''turev araclar'',
       asc ''turevAraclarDuran''),
     (asc ''stoklar'',
       asc ''stoklarDuran''),
     (asc ''ozkaynak yontemiyle degerlenen yat r mlar'',
       asc ''ozkaynakYontemiyleDegerlenenYatirimlar''),
     (asc ''canl varl klar'',
       asc ''canliVarliklarDuran''),
     (asc ''yat r m amacl gayrimenkuller'',
       asc ''yatirimAmacliGayrimenkuller''),
     (asc ''proje halindeki yat r m amacl gayrimenkuller'',
       asc ''projeHalindekiYatirimAmacliGayrimenkuller''),
     (asc ''maddi duran varl klar'',
       asc ''maddiDuranVarliklar''),
     (asc ''kullan m hakk varl klar'',
       asc ''kullanimHakkiVarliklari''),
     (asc ''maddi olmayan duran varl klar'',
       asc ''maddiOlmayanDuranVarliklar''),
     (asc ''pesin odenmis giderler'',
       asc ''pesinOdenmisGiderlerDuran''),
     (asc ''ertelenmis vergi varl g'',
       asc ''ertelenmisVergiVarligiDuran''),
     (asc ''cari donem vergisiyle ilgili duran varl klar'',
       asc ''cariDonemVergisiyleIlgiliDuranVarliklar''),
     (asc ''nakdi d s serbest kullan labilir teminatlar'',
       asc ''nakdiDisiSerbestKullanilabilirTeminatlarDuran''),
     (asc ''diger duran varl klar'',
       asc ''digerDuranVarliklar'')]"
  by (simp add: norm_fields_def fields_duran_def is_dummy_eval norm_eval)

lemma norm_fields_kv:
  "norm_fields fields_kv =
    [(asc ''finansal borclar'',
       asc ''finansalBorclarKV''),
     (asc ''diger finansal yukumlulukler'',
       asc ''digerFinansalYukumluluklerKV''),
     (asc ''ticari borclar'',
       asc ''ticariBorclarKV''),
     (asc ''finans sektoru faaliyetlerinden borclar'',
       asc ''finansSektoruFaaliyetlerindenBorclarKV''),
     (asc ''cal sanlara saglanan faydalar kapsam nda borclar'',
       asc ''calisanlaraSaglananFaydalarBorclarKV''),
     (asc ''diger borclar'',
       asc ''digerBorclarKV''),
     (asc ''musteri sozlesmelerinden dogan yukumlulukler'',
       asc ''musteriSozlesmelerindenDoganYukumluluklerKV''),
     (asc ''ozkaynak yontemiyle degerlenen yat r mlardan yukumlulukler'',
       asc ''ozkaynakYontemiyleDegerlenenYatirimlardanYukumluluklerKV''),
     (asc ''turev araclar'',
       asc ''turevAraclarKV''),
     (asc ''devlet tesvik ve yard mlar'',
       asc ''devletTesvikYardimKV''),
     (asc ''ertelenmis gelirler'',
       asc ''ertelenmisGelirlerKV''),
     (asc ''donem kar vergi yukumlulugu'',
       asc ''donemKariVergiYukumluluguKV''),
     (asc ''k sa vadeli kars l klar'',
       asc ''kisaVadeliKarsiliklar''),
     (asc ''diger k sa vadeli yukumlulukler'',
       asc ''digerKisaVadeliYukumlulukler''),
     (asc ''sat s amacl s n fland r lan varl k gruplar na iliskin yukumlulukler'',
       asc ''satisAmacliSiniflandirilanVarlikGruplarinaIliskinYukumlulukler''),
     (asc ''ortaklara dag t lmak uzere elde tutulan varl k gruplar na iliskin yukumlulukler'',
       asc ''ortaklaraDagitilmakUzereEldeTutulanVarlikGruplarinaIliskinYukumlulukler'')]"
  by (simp add: norm_fields_def fields_kv_def is_dummy_eval norm_eval)

lemma norm_fields_uv:
  "norm_fields fields_uv =
    [(asc ''finansal borclar'',
       asc ''finansalBorclarUV''),
     (asc ''diger finansal yukumlulukler'',
       asc ''digerFinansalYukumluluklerUV''),
     (asc ''ticari borclar'',
       asc ''ticariBorclarUV''),
     (asc ''finans sektoru faaliyetlerinden borclar'',
       asc ''finansSektoruFaaliyetlerindenBorclarUV''),
     (asc ''cal sanlara saglanan faydalar kapsam nda borclar'',
       asc ''calisanlaraSaglananFaydalarBorclarUV''),
     (asc ''diger borclar'',
       asc ''digerBorclarUV''),
     (asc ''musteri sozlesmelerinden dogan yukumlulukler'',
       asc ''musteriSozlesmelerindenDoganYukumluluklerUV''),
     (asc ''ozkaynak yontemiyle degerlenen yat r mlardan yukumlulukler'',
       asc ''ozkaynakYontemiyleDegerlenenYatirimlardanYukumluluklerUV''),
     (asc ''turev araclar'',
       asc ''turevAraclarUV''),
     (asc ''devlet tesvik ve yard mlar'',
       asc ''devletTesvikYardimUV''),
     (asc ''ertelenmis gelirler'',
       asc ''ertelenmisGelirlerUV''),
     (asc ''cari donem vergisiyle ilgili borclar'',
       asc ''cariDonemVergisiyleIlgiliBorclarUV''),
     (asc ''ertelenmis vergi yukumlulugu'',
       asc ''ertelenmisVergiYukumlulugu''),
     (asc ''diger uzun vadeli yukumlulukler'',
       asc ''digerUzunVadeliYukumlulukler'')]"
  by (simp add: norm_fields_def fields_uv_def is_dummy_eval norm_eval)

lemma norm_fields_oz:
  "norm_fields fields_oz =
    [(asc ''ana ortakl ga ait ozkaynaklar'',
       asc ''anaOrtakligaAitOzkaynaklar''),
     (asc ''odenmis sermaye'',
       asc ''odenmisSermaye''),
     (asc ''sermaye duzeltme farklar'',
       asc ''sermayeDuzeltmeFarklari''),
     (asc ''birlesme dengelestirme hesab'',
       asc ''birlesmeDengeletirmeHesabi''),
     (asc ''pay sahiplerinin ilave sermaye katk lar'',
       asc ''paySahipleriIlaveSermayeKatkilari''),
     (asc ''sermaye avans'',
       asc ''sermayeAvansi''),
     (asc ''geri al nm s paylar'',
       asc ''geriAlinmisPaylar''),
     (asc ''kars l kl istirak sermaye duzeltmesi'',
       asc ''karsilikliIstirakSermayeDuzeltmesi''),
     (asc ''paylara iliskin primler iskontolar'',
       asc ''paylaraIliskinPrimlerIskontolar''),
     (asc ''ortak kontrole tabi tesebbus veya isletmeleri iceren birlesmelerin etkisi'',
       asc ''ortakKontroleTabiBirlesmeEtkisi''),
     (asc ''pay bazl odemeler'',
       asc ''payBazliOdemeler''),
     (asc ''kar veya zararda yeniden s n fland r lmayacak birikmis diger kapsaml gelirler giderler'',
       asc ''yenidenSiniflandirilmayacakBirikmisDigerKapsamliGelirGider''),
     (asc ''kar veya zararda yeniden s n fland r lacak birikmis diger kapsaml gelirler giderler'',
       asc ''yenidenSiniflandirilacakBirikmisDigerKapsamliGelirGider''),
     (asc ''kardan ayr lan k s tlanm s yedekler'',
       asc ''kardanAyrilanKisitlanmisYedekler''),
     (asc ''diger yedekler'',
       asc ''digerYedekler''),
     (asc ''gecmis y llar kar zararlar'',
       asc ''gecmisYillarKarZarari''),
     (asc ''donem net kar'',
       asc ''donemKariZarari''),
     (asc ''az nl k paylar'',
       asc ''kontrolGucuOlmayanPaylar''),
     (asc ''hedge dahil net yabanc para pozisyonu'',
       asc ''hedgeDahilNetYabanciParaPozisyonu'')]"
  by (simp add: norm_fields_def fields_oz_def is_dummy_eval norm_eval)
section \<open>The tables, evaluated\<close>

lemma section_group_eq:
  "section_group (asc ''AKTIF'') (tr ''D~onen Varl~iklar'') = fields_donen"
  "section_group (asc ''AKTIF'') (tr ''Duran Varl~iklar'') = fields_duran"
  "section_group (asc ''PASIF'') (tr ''K~isa Vadeli Y~uk~uml~ul~ukler'') = fields_kv"
  "section_group (asc ''PASIF'') (tr ''Uzun Vadeli Y~uk~uml~ul~ukler'') = fields_uv"
  "section_group (asc ''PASIF'') (tr ''~Ozkaynaklar'') = fields_oz"
  by (simp_all add: section_group_def SECTION_FIELDS_def dict_get_def asc_eq_iff tr_eval)

lemma non_dummy_keys_norm: "non_dummy_keys fs = map snd (norm_fields fs)"
  by (induction fs) (auto simp: non_dummy_keys_def norm_fields_def)

lemma DONEN_KEYS_eq:
  "DONEN_KEYS =
     [asc ''nakitVeNakitBenzerleri'',
      asc ''gayrimenkulProjeleriNakitHesaplari'',
      asc ''finansalYatirimlar'',
      asc ''teminataVerilenFinansalVarliklar'',
      asc ''ticariAlacaklarDonen'',
      asc ''finansSektoruFaaliyetlerindenAlacaklarDonen'',
      asc ''tcmbHesabi'',
      asc ''digerAlacaklarDonen'',
      asc ''musteriSozlesmelerindenDoganVarliklarDonen'',
      asc ''imtiyazSozlesmelerineIliskinFinansalVarliklarDonen'',
      asc ''turevAraclarDonen'',
      asc ''stoklar'',
      asc ''projeHalindekiStoklar'',
      asc ''canliVarliklarDonen'',
      asc ''pesinOdenmisGiderlerDonen'',
      asc ''ertelenmisSigortacilikUretimGiderleri'',
      asc ''cariDonemVergisiyleIlgiliVarliklarDonen'',
      asc ''nakdiDisiSerbestKullanilabilirTeminatlarDonen'',
      asc ''digerDonenVarliklar'',
      asc ''satisAmaciylaEldeTutulanDuranVarliklar'',
      asc ''ortaklaraDagitilmakUzereEldeTutulanDuranVarliklar'']"
  unfolding DONEN_KEYS_def section_group_eq non_dummy_keys_norm norm_fields_donen by simp

lemma DURAN_KEYS_eq:
  "DURAN_KEYS =
     [asc ''finansalYatirimlarDuran'',
      asc ''istirakIsOrtaklikBagliOrtaklikYatirimlari'',
      asc ''ticariAlacaklar'',
      asc ''finansSektoruFaaliyetlerindenAlacaklarDuran'',
      asc ''digerAlacaklarDuran'',
      asc ''musteriSozlesmelerindenDoganVarliklarDuran'',
      asc ''imtiyazSozlesmelerineIliskinFinansalVarliklarDuran'',
      asc ''turevAraclarDuran'',
      asc ''stoklarDuran'',
      asc ''ozkaynakYontemiyleDegerlenenYatirimlar'',
      asc ''canliVarliklarDuran'',
      asc ''yatirimAmacliGayrimenkuller'',
      asc ''projeHalindekiYatirimAmacliGayrimenkuller'',
      asc ''maddiDuranVarliklar'',
      asc ''kullanimHakkiVarliklari'',
      asc ''maddiOlmayanDuranVarliklar'',
      asc ''pesinOdenmisGiderlerDuran'',
      asc ''ertelenmisVergiVarligiDuran'',
      asc ''cariDonemVergisiyleIlgiliDuranVarliklar'',
      asc ''nakdiDisiSerbestKullanilabilirTeminatlarDuran'',
      asc ''digerDuranVarliklar'']"
  unfolding DURAN_KEYS_def section_group_eq non_dummy_keys_norm norm_fields_duran by simp

lemma KV_KEYS_eq:
  "KV_KEYS =
     [asc ''finansalBorclarKV'',
      asc ''digerFinansalYukumluluklerKV'',
      asc ''ticariBorclarKV'',
      asc ''finansSektoruFaaliyetlerindenBorclarKV'',
      asc ''calisanlaraSaglananFaydalarBorclarKV'',
      asc ''digerBorclarKV'',
      asc ''musteriSozlesmelerindenDoganYukumluluklerKV'',
      asc ''ozkaynakYontemiyleDegerlenenYatirimlardanYukumluluklerKV'',
      asc ''turevAraclarKV'',
      asc ''devletTesvikYardimKV'',
      asc ''ertelenmisGelirlerKV'',
      asc ''donemKariVergiYukumluluguKV'',
      asc ''kisaVadeliKarsiliklar'',
      asc ''digerKisaVadeliYukumlulukler'',
      asc ''satisAmacliSiniflandirilanVarlikGruplarinaIliskinYukumlulukler'',
      asc ''ortaklaraDagitilmakUzereEldeTutulanVarlikGruplarinaIliskinYukumlulukler'']"
  unfolding KV_KEYS_def section_group_eq non_dummy_keys_norm norm_fields_kv by simp

lemma UV_KEYS_eq:
  "UV_KEYS =
     [asc ''finansalBorclarUV'',
      asc ''digerFinansalYukumluluklerUV'',
      asc ''ticariBorclarUV'',
      asc ''finansSektoruFaaliyetlerindenBorclarUV'',
      asc ''calisanlaraSaglananFaydalarBorclarUV'',
      asc ''digerBorclarUV'',
      asc ''musteriSozlesmelerindenDoganYukumluluklerUV'',
      asc ''ozkaynakYontemiyleDegerlenenYatirimlardanYukumluluklerUV'',
      asc ''turevAraclarUV'',
      asc ''devletTesvikYardimUV'',
      asc ''ertelenmisGelirlerUV'',
      asc ''cariDonemVergisiyleIlgiliBorclarUV'',
      asc ''ertelenmisVergiYukumlulugu'',
      asc ''digerUzunVadeliYukumlulukler'']"
  unfolding UV_KEYS_def section_group_eq non_dummy_keys_norm norm_fields_uv by simp

lemma OZ_KEYS_eq:
  "OZ_KEYS =
     [asc ''anaOrtakligaAitOzkaynaklar'',
      asc ''odenmisSermaye'',
      asc ''sermayeDuzeltmeFarklari'',
      asc ''birlesmeDengeletirmeHesabi'',
      asc ''paySahipleriIlaveSermayeKatkilari'',
      asc ''sermayeAvansi'',
      asc ''geriAlinmisPaylar'',
      asc ''karsilikliIstirakSermayeDuzeltmesi'',
      asc ''paylaraIliskinPrimlerIskontolar'',
      asc ''ortakKontroleTabiBirlesmeEtkisi'',
      asc ''payBazliOdemeler'',
      asc ''yenidenSiniflandirilmayacakBirikmisDigerKapsamliGelirGider'',
      asc ''yenidenSiniflandirilacakBirikmisDigerKapsamliGelirGider'',
      asc ''kardanAyrilanKisitlanmisYedekler'',
      asc ''digerYedekler'',
      asc ''gecmisYillarKarZarari'',
      asc ''donemKariZarari'',
      asc ''kontrolGucuOlmayanPaylar'',
      asc ''hedgeDahilNetYabanciParaPozisyonu'']"
  unfolding OZ_KEYS_def section_group_eq non_dummy_keys_norm norm_fields_oz by simp

lemma all_groups_eq:
  "all_groups =
     [(tr ''D~onen Varl~iklar'', fields_donen),
      (tr ''Duran Varl~iklar'', fields_duran),
      (tr ''K~isa Vadeli Y~uk~uml~ul~ukler'', fields_kv),
      (tr ''Uzun Vadeli Y~uk~uml~ul~ukler'', fields_uv),
      (tr ''~Ozkaynaklar'', fields_oz)]"
  by (simp add: all_groups_def SECTION_FIELDS_def dict_get_def asc_eq_iff)

lemma assoc_dict_set: "assoc (dict_set m k v) k' = (if k = k' then Some v else assoc m k')"
  by (induction m) auto

lemma fold_add_label:
  "fold add_label fs m = fold (\<lambda>(n, k) m. dict_set m n k) (norm_fields fs) m"
  by (induction fs arbitrary: m) (auto simp: add_label_def norm_fields_def)

lemma assoc_fold_dict_set:
  "assoc (fold (\<lambda>(n, k) m. dict_set m n k) xs m) n =
     (case find_last n xs of Some k \<Rightarrow> Some k | None \<Rightarrow> assoc m n)"
  by (induction xs arbitrary: m) (auto simp: assoc_dict_set split: option.splits)

lemma assoc_add_labels:
  "assoc (fold add_label fs m) n =
     (case find_last n (norm_fields fs) of Some k \<Rightarrow> Some k | None \<Rightarrow> assoc m n)"
  by (simp add: fold_add_label assoc_fold_dict_set)

text \<open>A label is looked up in the groups from the last to the first.\<close>

lemma assoc_label_to_key:
  "assoc label_to_key n =
     (case find_last n (norm_fields fields_oz) of Some k \<Rightarrow> Some k | None \<Rightarrow>
      case find_last n (norm_fields fields_uv) of Some k \<Rightarrow> Some k | None \<Rightarrow>
      case find_last n (norm_fields fields_kv) of Some k \<Rightarrow> Some k | None \<Rightarrow>
      case find_last n (norm_fields fields_duran) of Some k \<Rightarrow> Some k | None \<Rightarrow>
      find_last n (norm_fields fields_donen))"
  unfolding label_to_key_def all_groups_eq
  by (simp add: assoc_add_labels split: option.splits)

lemma find_last_cong: "k = k' \<Longrightarrow> find_last k xs = find_last k' xs"
  by simp

lemmas norm_fields_all =
  norm_fields_oz norm_fields_uv norm_fields_kv norm_fields_duran norm_fields_donen









section \<open>Sums\<close>

lemma fold_sum_keys:
  "fold (\<lambda>key total. case get_float d key of Some x \<Rightarrow> total + x | None \<Rightarrow> total) keys a =
     a + sum_list (map (row_amount d) keys)"
  by (induction keys arbitrary: a) (auto simp: row_amount_def split: option.splits)

lemma sum_keys_sum_list: "sum_keys keys d = sum_list (map (row_amount d) keys)"
  by (simp add: sum_keys_def fold_sum_keys)

lemma sum_duran_varliklar_eq:
  "sum_duran_varliklar d = sum_keys DURAN_KEYS d - row_amount d (asc ''birikmiAmort'')"
  by (simp add: sum_duran_varliklar_def row_amount_def split: option.splits)

lemmas sums_unfold =
  sum_donen_varliklar_def sum_duran_varliklar_eq sum_kv_yabanci_kaynaklar_def
  sum_uv_yabanci_kaynaklar_def sum_oz_kaynaklar_def sum_keys_sum_list
  DONEN_KEYS_eq DURAN_KEYS_eq KV_KEYS_eq UV_KEYS_eq OZ_KEYS_eq

lemmas amount_eval = row_amount_def get_float_def dict_get_def py_or_def asc_eq_iff

text \<open>The scenario entries: the key \<^verbatim>\<open>kasa\<close> is in no key list.\<close>

lemma sums_kasa:
  "sum_donen_varliklar [(asc ''kasa'', PFloat 1000), (asc ''odenmisSermaye'', PFloat 1000)] = 0"
  "sum_duran_varliklar [(asc ''kasa'', PFloat 1000), (asc ''odenmisSermaye'', PFloat 1000)] = 0"
  "sum_kv_yabanci_kaynaklar [(asc ''kasa'', PFloat 1000), (asc ''odenmisSermaye'', PFloat 1000)] = 0"
  "sum_uv_yabanci_kaynaklar [(asc ''kasa'', PFloat 1000), (asc ''odenmisSermaye'', PFloat 1000)] = 0"
  "sum_oz_kaynaklar [(asc ''kasa'', PFloat 1000), (asc ''odenmisSermaye'', PFloat 1000)] = 1000"
  by (simp_all add: sums_unfold amount_eval)

lemma sums_eksi:
  "sum_donen_varliklar [(asc ''odenmisSermaye'', PFloat (- 100))] = 0"
  "sum_duran_varliklar [(asc ''odenmisSermaye'', PFloat (- 100))] = 0"
  "sum_kv_yabanci_kaynaklar [(asc ''odenmisSermaye'', PFloat (- 100))] = 0"
  "sum_uv_yabanci_kaynaklar [(asc ''odenmisSermaye'', PFloat (- 100))] = 0"
  "sum_oz_kaynaklar [(asc ''odenmisSermaye'', PFloat (- 100))] = - 100"
  by (simp_all add: sums_unfold amount_eval)

lemmas validate_unfold =
  validate_def aktif_toplam_def pasif_toplam_def likidite_orani_def negatif_uyarilar_def
  negatif_uyari_def dict_get_def py_strip_def asc_eq_iff

text \<open>
  C1. The scenario of the balanced sheet, entries \<^verbatim>\<open>{kasa: 1000, odenmisSermaye: 1000}\<close>:
  the code sums no current asset, since \<^verbatim>\<open>kasa\<close> is not a key of the chart of
  accounts that \<^verbatim>\<open>DONEN_KEYS\<close> is read from, although \<^verbatim>\<open>collect_bilanco_data\<close>
  enters it under the current assets and \<^verbatim>\<open>build_mongo_like_document\<close> files it
  there. The total of the current assets is 0, the equity is 1000, and \<^verbatim>\<open>validate\<close>
  reports the imbalance as critical, a liquidity ratio of 0, and an empty sheet.
\<close>

theorem C1_kasa_not_summed:
  "sum_donen_varliklar [(asc ''kasa'', PFloat 1000), (asc ''odenmisSermaye'', PFloat 1000)] = 0
   \<and> sum_oz_kaynaklar [(asc ''kasa'', PFloat 1000), (asc ''odenmisSermaye'', PFloat 1000)] = 1000
   \<and> likidite_orani [(asc ''kasa'', PFloat 1000), (asc ''odenmisSermaye'', PFloat 1000)] = 0
   \<and> validate [(asc ''kasa'', PFloat 1000), (asc ''odenmisSermaye'', PFloat 1000)] =
       [kritik (Bilanco_dengesizligi 0 1000), uyari Isletme_adi_bos,
        uyari (Likidite_dusuk 0), uyari Bilanco_bos]"
  by (simp add: validate_unfold sums_kasa)

section \<open>The document and the liquidity check\<close>

text \<open>
  C6. In every document the status is \<^verbatim>\<open>basarili\<close> when the list of findings is empty
  and \<^verbatim>\<open>uyarilarla\<close> when it is not; what the findings are, critical or not, plays
  no part. The findings themselves are stored unchanged.
\<close>

theorem C6_status_label:
  "doc_path (build_mongo_like_document now d errors) (asc ''dogrulama'') (asc ''durumu'')
     = Some (DVal (PStr (if errors = [] then asc ''basarili'' else asc ''uyarilarla'')))
   \<and> doc_path (build_mongo_like_document now d errors) (asc ''dogrulama'') (asc ''hatalar'')
     = Some (DErrs errors)"
  by (simp add: build_mongo_like_document_def Let_def doc_path_def asc_eq_iff)

theorem C6_status_label_witness:
  "doc_path (build_mongo_like_document [] [] [kritik Oz_kaynaklar_negatif])
      (asc ''dogrulama'') (asc ''durumu'') = Some (DVal (PStr (asc ''uyarilarla'')))
   \<and> doc_path (build_mongo_like_document [] [] [uyari Bilanco_bos])
      (asc ''dogrulama'') (asc ''durumu'') = Some (DVal (PStr (asc ''uyarilarla'')))
   \<and> doc_path (build_mongo_like_document [] [] [])
      (asc ''dogrulama'') (asc ''durumu'') = Some (DVal (PStr (asc ''basarili'')))"
  using C6_status_label [of "[]" "[]" "[kritik Oz_kaynaklar_negatif]"]
    C6_status_label [of "[]" "[]" "[uyari Bilanco_bos]"]
    C6_status_label [of "[]" "[]" "[]"]
  by simp

lemma negatif_uyarilar_mesaj:
  "f \<in> set (negatif_uyarilar d) \<Longrightarrow> \<exists>key num. f = uyari (Negatif_deger key num)"
  by (auto simp: negatif_uyarilar_def negatif_uyari_def split: if_splits option.splits)

lemma likidite_not_negatif:
  "\<lparr>tip = t, mesaj = Likidite_dusuk r\<rparr> \<notin> set (negatif_uyarilar d)"
  using negatif_uyarilar_mesaj [of "\<lparr>tip = t, mesaj = Likidite_dusuk r\<rparr>" d]
  by (auto simp: uyari_def)

text \<open>
  C7. The divisor of the liquidity ratio is the total of the short-term liabilities, or
  1 when that total is 0, so it is never 0; and \<^verbatim>\<open>validate\<close> holds a liquidity
  finding exactly when the ratio is below 1: a warning, with the ratio as its value.
\<close>

theorem C7_liquidity:
  "(if sum_kv_yabanci_kaynaklar d \<noteq> 0 then sum_kv_yabanci_kaynaklar d else 1) \<noteq> 0
   \<and> (\<lparr>tip = t, mesaj = Likidite_dusuk r\<rparr> \<in> set (validate d) \<longleftrightarrow>
        t = asc ''uyari''
        \<and> r = sum_donen_varliklar d
              / (if sum_kv_yabanci_kaynaklar d \<noteq> 0 then sum_kv_yabanci_kaynaklar d else 1)
        \<and> r < 1)"
proof -
  have "\<lparr>tip = t, mesaj = Likidite_dusuk r\<rparr> \<in> set (validate d) \<longleftrightarrow>
          likidite_orani d < 1 \<and> \<lparr>tip = t, mesaj = Likidite_dusuk r\<rparr> = uyari (Likidite_dusuk (likidite_orani d))"
    by (auto simp add: validate_def likidite_not_negatif kritik_def uyari_def)
  then show ?thesis
    by (auto simp: uyari_def likidite_orani_def)
qed

lemma sums_stok:
  "sum_donen_varliklar [(asc ''stoklar'', PFloat 50), (asc ''ticariBorclarKV'', PFloat 100)] = 50"
  "sum_kv_yabanci_kaynaklar [(asc ''stoklar'', PFloat 50), (asc ''ticariBorclarKV'', PFloat 100)]
     = 100"
  by (simp_all add: sums_unfold amount_eval)

theorem C7_liquidity_witness:
  "\<lparr>tip = asc ''uyari'', mesaj = Likidite_dusuk (1 / 2)\<rparr>
     \<in> set (validate [(asc ''stoklar'', PFloat 50), (asc ''ticariBorclarKV'', PFloat 100)])
   \<and> \<lparr>tip = asc ''uyari'', mesaj = Likidite_dusuk 0\<rparr>
     \<notin> set (validate [(asc ''stoklar'', PFloat 50), (asc ''ticariBorclarKV'', PFloat 100)])"
  using C7_liquidity [of "[(asc ''stoklar'', PFloat 50), (asc ''ticariBorclarKV'', PFloat 100)]"
      "asc ''uyari''" "1 / 2"]
    C7_liquidity [of "[(asc ''stoklar'', PFloat 50), (asc ''ticariBorclarKV'', PFloat 100)]"
      "asc ''uyari''" "0"]
  by (simp add: sums_stok)

section \<open>Negative equity\<close>

lemma assoc_mem: "assoc d k = Some v \<Longrightarrow> (k, v) \<in> set d"
  by (induction d) (auto split: if_splits)

lemma assoc_distinct: "distinct (map fst d) \<Longrightarrow> (k, v) \<in> set d \<Longrightarrow> assoc d k = Some v"
  by (induction d) force+

lemma concat_map_single:
  assumes "distinct d" and "e \<in> set d" and "\<And>e'. e' \<in> set d \<Longrightarrow> e' \<noteq> e \<Longrightarrow> f e' = []"
  shows "concat (map f d) = f e"
  using assms
proof (induction d)
  case Nil
  then show ?case by simp
next
  case (Cons a d)
  show ?case
  proof (cases "a = e")
    case True
    with Cons.prems have "\<forall>e' \<in> set d. f e' = []" by auto
    then have "concat (map f d) = []" by (induction d) auto
    with True show ?thesis by simp
  next
    case False
    with Cons show ?thesis by auto
  qed
qed

lemma py_float_zero: "py_float (PInt 0) = Some 0" "py_float (PFloat 0) = Some 0"
  by simp_all

text \<open>
  Entries where the paid-in capital is \<open>- 100\<close> and every other amount is \<open>0\<close>; the
  name and the date of the sheet are free.
\<close>

lemma row_amount_others:
  assumes "\<forall>(k, v) \<in> set d. k \<noteq> asc ''odenmisSermaye'' \<and> k \<noteq> asc ''isletmeAdi''
               \<and> k \<noteq> asc ''bilancoTarihi'' \<longrightarrow> v = PFloat 0 \<or> v = PInt 0"
    and "k \<noteq> ''odenmisSermaye''" and "k \<noteq> ''isletmeAdi''" and "k \<noteq> ''bilancoTarihi''"
  shows "row_amount d (asc k) = 0"
proof (cases "assoc d (asc k)")
  case None
  then show ?thesis by (simp add: row_amount_def get_float_def dict_get_def py_or_def)
next
  case (Some v)
  then have "(asc k, v) \<in> set d" by (rule assoc_mem)
  with assms have "v = PFloat 0 \<or> v = PInt 0" by (auto simp: asc_eq_iff)
  with Some show ?thesis
    by (auto simp: row_amount_def get_float_def dict_get_def py_or_def)
qed

lemma row_amount_sermaye:
  assumes "distinct (map fst d)" and "(asc ''odenmisSermaye'', PFloat x) \<in> set d" and "x \<noteq> 0"
  shows "row_amount d (asc ''odenmisSermaye'') = x"
  using assoc_distinct [OF assms(1,2)] assms(3)
  by (simp add: row_amount_def get_float_def dict_get_def py_or_def)

lemma sums_sermaye:
  assumes "distinct (map fst d)" and "(asc ''odenmisSermaye'', PFloat x) \<in> set d" and "x \<noteq> 0"
    and "\<forall>(k, v) \<in> set d. k \<noteq> asc ''odenmisSermaye'' \<and> k \<noteq> asc ''isletmeAdi''
               \<and> k \<noteq> asc ''bilancoTarihi'' \<longrightarrow> v = PFloat 0 \<or> v = PInt 0"
  shows "sum_donen_varliklar d = 0" and "sum_duran_varliklar d = 0"
    and "sum_kv_yabanci_kaynaklar d = 0" and "sum_uv_yabanci_kaynaklar d = 0"
    and "sum_oz_kaynaklar d = x"
  by (simp_all add: sums_unfold row_amount_others [OF assms(4)] row_amount_sermaye [OF assms(1-3)])

lemma negatif_sermaye:
  assumes "distinct (map fst d)" and "(asc ''odenmisSermaye'', PFloat x) \<in> set d" and "x < 0"
    and "\<forall>(k, v) \<in> set d. k \<noteq> asc ''odenmisSermaye'' \<and> k \<noteq> asc ''isletmeAdi''
               \<and> k \<noteq> asc ''bilancoTarihi'' \<longrightarrow> v = PFloat 0 \<or> v = PInt 0"
  shows "negatif_uyarilar d = [uyari (Negatif_deger (asc ''odenmisSermaye'') x)]"
proof -
  have d: "distinct d" using assms(1) by (simp add: distinct_map)
  have "negatif_uyari e' = []"
    if "e' \<in> set d" and "e' \<noteq> (asc ''odenmisSermaye'', PFloat x)" for e'
  proof -
    obtain k v where e': "e' = (k, v)" by (cases e')
    show ?thesis
    proof (cases "k = asc ''odenmisSermaye''")
      case True
      with that e' assms(1,2) have "v = PFloat x"
        using assoc_distinct [of d k v] assoc_distinct [of d k "PFloat x"] by simp
      with that e' True show ?thesis by simp
    next
      case False
      with that e' assms(4) show ?thesis
        by (auto simp: negatif_uyari_def)
    qed
  qed
  then have "negatif_uyarilar d = negatif_uyari (asc ''odenmisSermaye'', PFloat x)"
    unfolding negatif_uyarilar_def using d assms(2) by (intro concat_map_single) auto
  then show ?thesis
    using assms(3) by (simp add: negatif_uyari_def asc_eq_iff)
qed

text \<open>
  C3, as amended. For entries with \<^verbatim>\<open>odenmisSermaye\<close> at \<open>- 100\<close> and every other
  amount absent or \<open>0\<close>, \<^verbatim>\<open>validate\<close> returns, in this order: the critical finding of
  the imbalance (assets \<open>0\<close>, liabilities and equity \<open>- 100\<close>), the warning of the empty
  name when the name is absent or blank, the warning of the negative item, the
  warning of the low liquidity (ratio \<open>0\<close>), the critical finding of the negative equity,
  and the warning of the empty sheet: six findings without a name, five with one.
\<close>

theorem C3_negative_equity:
  assumes "distinct (map fst d)" and "(asc ''odenmisSermaye'', PFloat (- 100)) \<in> set d"
    and "\<forall>(k, v) \<in> set d. k \<noteq> asc ''odenmisSermaye'' \<and> k \<noteq> asc ''isletmeAdi''
               \<and> k \<noteq> asc ''bilancoTarihi'' \<longrightarrow> v = PFloat 0 \<or> v = PInt 0"
  shows "validate d =
      [kritik (Bilanco_dengesizligi 0 (- 100))]
    @ (if py_strip (py_str (dict_get d (asc ''isletmeAdi'') (PStr []))) = []
       then [uyari Isletme_adi_bos] else [])
    @ [uyari (Negatif_deger (asc ''odenmisSermaye'') (- 100)),
       uyari (Likidite_dusuk 0),
       kritik Oz_kaynaklar_negatif,
       uyari Bilanco_bos]"
proof -
  note s = sums_sermaye [OF assms(1,2) _ assms(3)]
  have n: "negatif_uyarilar d = [uyari (Negatif_deger (asc ''odenmisSermaye'') (- 100))]"
    using assms by (intro negatif_sermaye) auto
  show ?thesis
    by (simp add: validate_def aktif_toplam_def pasif_toplam_def likidite_orani_def s n)
qed

theorem C3_negative_equity_witness:
  "validate [(asc ''odenmisSermaye'', PFloat (- 100))] =
     [kritik (Bilanco_dengesizligi 0 (- 100)),
      uyari Isletme_adi_bos,
      uyari (Negatif_deger (asc ''odenmisSermaye'') (- 100)),
      uyari (Likidite_dusuk 0),
      kritik Oz_kaynaklar_negatif,
      uyari Bilanco_bos]
   \<and> validate [(asc ''isletmeAdi'', PStr (asc ''Acme'')), (asc ''stoklar'', PInt 0),
        (asc ''odenmisSermaye'', PFloat (- 100))] =
     [kritik (Bilanco_dengesizligi 0 (- 100)),
      uyari (Negatif_deger (asc ''odenmisSermaye'') (- 100)),
      uyari (Likidite_dusuk 0),
      kritik Oz_kaynaklar_negatif,
      uyari Bilanco_bos]"
  using C3_negative_equity [of "[(asc ''odenmisSermaye'', PFloat (- 100))]"]
    C3_negative_equity [of "[(asc ''isletmeAdi'', PStr (asc ''Acme'')), (asc ''stoklar'', PInt 0),
        (asc ''odenmisSermaye'', PFloat (- 100))]"]
  by (simp add: asc_eq_iff dict_get_def py_strip_def asc_def py_isspace_def)

text \<open>
  C3, as stated: for the entries \<^verbatim>\<open>{odenmisSermaye: -100}\<close>, with a name of the
  business or without, \<^verbatim>\<open>validate\<close> does not return three findings, and the
  warning of the negative item comes before the critical finding of the negative equity.
\<close>

theorem C3_counterexample:
  "length (validate [(asc ''odenmisSermaye'', PFloat (- 100))]) = 6
   \<and> length (validate [(asc ''isletmeAdi'', PStr (asc ''Acme'')),
        (asc ''odenmisSermaye'', PFloat (- 100))]) = 5
   \<and> validate [(asc ''odenmisSermaye'', PFloat (- 100))] ! 2
       = uyari (Negatif_deger (asc ''odenmisSermaye'') (- 100))
   \<and> validate [(asc ''odenmisSermaye'', PFloat (- 100))] ! 4 = kritik Oz_kaynaklar_negatif"
proof -
  have s: "sum_donen_varliklar [(asc ''isletmeAdi'', PStr (asc ''Acme'')),
        (asc ''odenmisSermaye'', PFloat (- 100))] = 0"
    "sum_duran_varliklar [(asc ''isletmeAdi'', PStr (asc ''Acme'')),
        (asc ''odenmisSermaye'', PFloat (- 100))] = 0"
    "sum_kv_yabanci_kaynaklar [(asc ''isletmeAdi'', PStr (asc ''Acme'')),
        (asc ''odenmisSermaye'', PFloat (- 100))] = 0"
    "sum_uv_yabanci_kaynaklar [(asc ''isletmeAdi'', PStr (asc ''Acme'')),
        (asc ''odenmisSermaye'', PFloat (- 100))] = 0"
    "sum_oz_kaynaklar [(asc ''isletmeAdi'', PStr (asc ''Acme'')),
        (asc ''odenmisSermaye'', PFloat (- 100))] = - 100"
    by (simp_all add: sums_unfold amount_eval)
  have nm: "py_strip (asc ''Acme'') \<noteq> []" "py_strip [] = []"
    by (simp_all add: py_strip_def asc_def py_isspace_def)
  show ?thesis
    by (simp add: validate_def aktif_toplam_def pasif_toplam_def likidite_orani_def
        negatif_uyarilar_def negatif_uyari_def dict_get_def asc_eq_iff sums_eksi s nm)
qed

section \<open>Cells\<close>

lemma py_strip_empty_iff: "py_strip s = [] \<longleftrightarrow> (\<forall>c \<in> set s. py_isspace c)"
proof
  assume e: "py_strip s = []"
  show "\<forall>c \<in> set s. py_isspace c"
  proof (cases "dropWhile py_isspace s")
    case Nil
    then show ?thesis by (simp add: dropWhile_eq_Nil_conv)
  next
    case (Cons a t)
    then have a: "\<not> py_isspace a" using hd_dropWhile [of py_isspace s] by auto
    from e Cons have "dropWhile py_isspace (rev (a # t)) = []" by (simp add: py_strip_def)
    then have "\<forall>c \<in> set (rev (a # t)). py_isspace c" by (simp only: dropWhile_eq_Nil_conv)
    with a show ?thesis by simp
  qed
next
  assume "\<forall>c \<in> set s. py_isspace c"
  then have d: "dropWhile py_isspace s = []" by (simp add: dropWhile_eq_Nil_conv)
  show "py_strip s = []" unfolding py_strip_def d by simp
qed

lemma digits_are_digits: "c \<in> set (digits n) \<Longrightarrow> 48 \<le> c \<and> c \<le> 57"
proof (induction n arbitrary: c rule: digits.induct)
  case (1 n)
  show ?case
  proof (cases "n < 10")
    case True
    with "1.prems" show ?thesis by (simp add: digits.simps [of n])
  next
    case False
    with "1.prems" have "c \<in> set (digits (n div 10)) \<or> c = 48 + n mod 10"
      by (auto simp add: digits.simps [of n])
    with "1.IH" False show ?thesis by auto
  qed
qed

lemma digits_not_Nil: "digits n \<noteq> []"
  by (simp add: digits.simps [of n])

lemma is_blank_simps:
  "is_blank PNone"
  "\<not> is_blank (PInt n)"
  "\<not> is_blank (PFloat x)"
  "is_blank (PStr s) \<longleftrightarrow> (\<forall>c \<in> set s. py_isspace c)"
proof -
  show "is_blank PNone" by (simp add: is_blank_def)
  have "\<exists>c \<in> set (digits (nat \<bar>n\<bar>)). \<not> py_isspace c"
  proof -
    obtain c where c: "c \<in> set (digits (nat \<bar>n\<bar>))"
      using digits_not_Nil [of "nat \<bar>n\<bar>"] by (cases "digits (nat \<bar>n\<bar>)") auto
    from digits_are_digits [OF c] have "\<not> py_isspace c" by (auto simp: py_isspace_def)
    with c show ?thesis by blast
  qed
  then show "\<not> is_blank (PInt n)"
    by (auto simp: is_blank_def py_strip_empty_iff)
  have "\<not> py_isspace 46" by (simp add: py_isspace_def)
  then show "\<not> is_blank (PFloat x)"
    by (auto simp: is_blank_def py_strip_empty_iff str_float_def)
  show "is_blank (PStr s) \<longleftrightarrow> (\<forall>c \<in> set s. py_isspace c)"
    by (simp add: is_blank_def py_strip_empty_iff)
qed

lemma cell_amount_simps:
  "cell_amount PNone = 0"
  "cell_amount (PInt n) = real_of_int n"
  "cell_amount (PFloat x) = x"
  by (simp_all add: cell_amount_def is_blank_simps)

section \<open>The layout\<close>

lemma scan_header_simple: "is_simple_format (scan_header r rows lay) = is_simple_format lay"
  by (induction rows arbitrary: r) (simp_all add: Let_def)

text \<open>
  With more than two columns the columns are 4, 5 and 3, whatever the header row
  holds; only the number of the header row comes from the scan.
\<close>

lemma detect_layout_wide:
  assumes "2 < max_column ws"
  shows "key_col (detect_layout ws) = 4" and "val_col (detect_layout ws) = 5"
    and "label_col (detect_layout ws) = 3" and "\<not> is_simple_format (detect_layout ws)"
  using assms by (simp_all add: detect_layout_def Let_def scan_header_simple)

lemma detect_layout_simple:
  assumes "max_column ws \<le> 2"
  shows "detect_layout ws =
    \<lparr>is_simple_format = True, header_row_idx = 1, key_col = 0, val_col = 2, label_col = 1\<rparr>"
  using assms by (simp add: detect_layout_def)

section \<open>Rows of a sheet\<close>

lemma fold_max_ge: "a \<le> fold (\<lambda>row m. max (length row) m) ws a"
proof (induction ws arbitrary: a)
  case Nil
  show ?case by simp
next
  case (Cons r ws)
  have "a \<le> max (length r) a" by simp
  also have "\<dots> \<le> fold (\<lambda>row m. max (length row) m) ws (max (length r) a)" by (rule Cons.IH)
  finally show ?case by simp
qed

lemma fold_max_row: "row \<in> set ws \<Longrightarrow> length row \<le> fold (\<lambda>row m. max (length row) m) ws a"
proof (induction ws arbitrary: a)
  case Nil
  then show ?case by simp
next
  case (Cons r ws)
  show ?case
  proof (cases "row = r")
    case True
    have "length r \<le> max (length r) a" by simp
    also have "\<dots> \<le> fold (\<lambda>row m. max (length row) m) ws (max (length r) a)"
      by (rule fold_max_ge)
    finally show ?thesis using True by simp
  next
    case False
    with Cons.prems have "row \<in> set ws" by simp
    then show ?thesis using Cons.IH by simp
  qed
qed

lemma max_column_ge1: "1 \<le> max_column ws"
  unfolding max_column_def by (rule fold_max_ge)

lemma length_le_max_column: "row \<in> set ws \<Longrightarrow> length row \<le> max_column ws"
  unfolding max_column_def by (rule fold_max_row)

lemma length_pad_row: "length row \<le> n \<Longrightarrow> length (pad_row n row) = n"
  by (simp add: pad_row_def)

lemma length_sheet_rows: "row \<in> set (sheet_rows ws) \<Longrightarrow> length row = max_column ws"
  by (auto simp: sheet_rows_def length_pad_row length_le_max_column split: if_splits)

lemma sheet_rows_Cons:
  "sheet_rows (r # rest) = map (pad_row (max_column (r # rest))) (r # rest)"
  by (simp add: sheet_rows_def)

section \<open>The two-column format\<close>

lemma simple_step_pad:
  assumes "length row \<le> Suc 0"
  shows "simple_step st (pad_row (Suc 0) row) = simple_step st (pad_row 2 row)"
proof (cases row)
  case Nil
  then show ?thesis by (simp add: simple_step_def pad_row_def numeral_2_eq_2)
next
  case (Cons x xs)
  with assms have "row = [x]" by simp
  then show ?thesis by (simp add: simple_step_def pad_row_def)
qed

lemma row_step_simple_pad:
  assumes "is_simple_format lay" and "length row \<le> n" and "1 \<le> n" and "n \<le> 2"
  shows "row_step lay (pad_row n row) = row_step lay (pad_row 2 row)"
proof -
  from assms have n: "n = 1 \<or> n = 2" by arith
  have ne: "pad_row 2 row \<noteq> []" "pad_row 1 row \<noteq> []"
    by (cases row; simp add: pad_row_def numeral_2_eq_2)+
  show ?thesis
  proof (rule ext)
    fix st
    show "row_step lay (pad_row n row) st = row_step lay (pad_row 2 row) st"
      using n assms ne by (auto simp: row_step_def simple_step_pad)
  qed
qed

lemma load_meta_other:
  "nm \<noteq> asc ''Bilgi'' \<Longrightarrow>
     load_meta \<lparr>wb_first = (nm, ws), wb_rest = others\<rparr>
       = load_meta \<lparr>wb_first = (nm, ws'), wb_rest = others\<rparr>"
  by (simp add: load_meta_def wb_sheets_def)

lemma load_simple:
  assumes "max_column (r # rest) \<le> 2"
  shows "load_from_excel \<lparr>wb_first = (nm, r # rest), wb_rest = others\<rparr> =
    loaded (fold (row_step (detect_layout (r # rest))) (map (pad_row 2) rest)
      \<lparr>current_group = None, loaded = load_meta \<lparr>wb_first = (nm, r # rest), wb_rest = others\<rparr>\<rparr>)"
proof -
  let ?n = "max_column (r # rest)"
  let ?lay = "detect_layout (r # rest)"
  have lay: "is_simple_format ?lay" "header_row_idx ?lay = 1"
    using assms by (simp_all add: detect_layout_simple)
  have "fold (row_step ?lay) (map (pad_row ?n) rest) st
          = fold (row_step ?lay) (map (pad_row 2) rest) st" for st
    unfolding fold_map comp_def
  proof (rule fold_cong)
    fix row
    assume "row \<in> set rest"
    show "row_step ?lay (pad_row ?n row) = row_step ?lay (pad_row 2 row)"
    proof (rule row_step_simple_pad)
      show "is_simple_format ?lay" by (rule lay)
      show "length row \<le> ?n" using \<open>row \<in> set rest\<close> by (simp add: length_le_max_column)
      show "1 \<le> ?n" by (rule max_column_ge1)
      show "?n \<le> 2" by (rule assms)
    qed
  qed simp_all
  then show ?thesis
    by (simp add: load_from_excel_def Let_def lay sheet_rows_Cons)
qed

lemma load_simple_steps:
  assumes "max_column (r # rest) \<le> 2"
  shows "load_from_excel \<lparr>wb_first = (nm, r # rest), wb_rest = others\<rparr> =
    loaded (fold (\<lambda>row st. simple_step st (pad_row 2 row)) rest
      \<lparr>current_group = None, loaded = load_meta \<lparr>wb_first = (nm, r # rest), wb_rest = others\<rparr>\<rparr>)"
proof -
  have ne: "pad_row 2 row \<noteq> []" for row
    by (cases row) (simp_all add: pad_row_def numeral_2_eq_2)
  have "row_step (detect_layout (r # rest)) (pad_row 2 row) = (\<lambda>st. simple_step st (pad_row 2 row))"
    for row
    using assms ne [of row] by (intro ext) (simp add: row_step_def detect_layout_simple)
  then have "fold (row_step (detect_layout (r # rest))) (map (pad_row 2) rest) st
      = fold (\<lambda>row st. simple_step st (pad_row 2 row)) rest st" for st
    by (simp add: fold_map comp_def)
  then show ?thesis by (simp add: load_simple [OF assms])
qed

lemma first_row_labels:
  "normalize_label (asc ''Stoklar'') = asc ''stoklar''"
  "normalize_label (asc ''Nakit ve Nakit Benzerleri'') = asc ''nakit ve nakit benzerleri''"
  by (simp_all add: norm_eval)

lemma first_row_keys:
  "assoc label_to_key (asc ''stoklar'') = Some (asc ''stoklarDuran'')"
  "assoc label_to_key (asc ''nakit ve nakit benzerleri'') = Some (asc ''nakitVeNakitBenzerleri'')"
  unfolding assoc_label_to_key norm_fields_all
  by (simp_all add: asc_eq_iff cong: find_last_cong)

text \<open>
  C8. A sheet of at most two columns is read from its second row on: the entries
  returned are those that the row step of the two-column format makes of the rows after
  the first, in their order, starting from the entries of the sheet \<^verbatim>\<open>Bilgi\<close>
  alone. So the first row, whatever it holds, adds no entry (when the sheet is not
  itself the one named \<^verbatim>\<open>Bilgi\<close>, nothing of it is read at all), while a second
  row with a label of the chart of accounts and an amount is stored.
\<close>

theorem C8_first_row_skipped:
  assumes "max_column (r # rest) \<le> 2"
  shows "load_from_excel \<lparr>wb_first = (nm, r # rest), wb_rest = others\<rparr> =
           loaded (fold (\<lambda>row st. simple_step st (pad_row 2 row)) rest
             \<lparr>current_group = None,
              loaded = load_meta \<lparr>wb_first = (nm, r # rest), wb_rest = others\<rparr>\<rparr>)
         \<and> (nm \<noteq> asc ''Bilgi'' \<and> max_column (r' # rest) \<le> 2 \<longrightarrow>
              load_from_excel \<lparr>wb_first = (nm, r # rest), wb_rest = others\<rparr>
                = load_from_excel \<lparr>wb_first = (nm, r' # rest), wb_rest = others\<rparr>)
         \<and> (rest = [[label, v]] \<and> label \<noteq> PNone \<and> \<not> is_blank v
              \<and> lookup_label None (normalize_label (py_str label)) = Some key \<longrightarrow>
              load_from_excel \<lparr>wb_first = (nm, r # rest), wb_rest = others\<rparr>
                = dict_set (load_meta \<lparr>wb_first = (nm, r # rest), wb_rest = others\<rparr>) key
                    (PFloat (cell_amount v)))"
proof (intro conjI impI)
  show a: "load_from_excel \<lparr>wb_first = (nm, r # rest), wb_rest = others\<rparr> =
           loaded (fold (\<lambda>row st. simple_step st (pad_row 2 row)) rest
             \<lparr>current_group = None,
              loaded = load_meta \<lparr>wb_first = (nm, r # rest), wb_rest = others\<rparr>\<rparr>)"
    using assms by (rule load_simple_steps)
  show "load_from_excel \<lparr>wb_first = (nm, r # rest), wb_rest = others\<rparr>
          = load_from_excel \<lparr>wb_first = (nm, r' # rest), wb_rest = others\<rparr>"
    if "nm \<noteq> asc ''Bilgi'' \<and> max_column (r' # rest) \<le> 2"
    using that assms load_meta_other [of nm "r # rest" others "r' # rest"]
    by (simp add: load_simple_steps)
  show "load_from_excel \<lparr>wb_first = (nm, r # rest), wb_rest = others\<rparr>
          = dict_set (load_meta \<lparr>wb_first = (nm, r # rest), wb_rest = others\<rparr>) key
              (PFloat (cell_amount v))"
    if "rest = [[label, v]] \<and> label \<noteq> PNone \<and> \<not> is_blank v
      \<and> lookup_label None (normalize_label (py_str label)) = Some key"
    unfolding a using that by (simp add: simple_step_def pad_row_def)
qed

theorem C8_first_row_skipped_witness:
  "max_column [[PStr (asc ''Stoklar''), PInt 100],
               [PStr (asc ''Nakit ve Nakit Benzerleri''), PInt 7]] \<le> 2
   \<and> PStr (asc ''Nakit ve Nakit Benzerleri'') \<noteq> PNone \<and> \<not> is_blank (PInt 7)
   \<and> lookup_label None (normalize_label (py_str (PStr (asc ''Nakit ve Nakit Benzerleri''))))
       = Some (asc ''nakitVeNakitBenzerleri'')
   \<and> lookup_label None (normalize_label (py_str (PStr (asc ''Stoklar''))))
       = Some (asc ''stoklarDuran'')
   \<and> load_from_excel
        \<lparr>wb_first = (asc ''Sheet1'',
           [[PStr (asc ''Stoklar''), PInt 100],
            [PStr (asc ''Nakit ve Nakit Benzerleri''), PInt 7]]),
         wb_rest = []\<rparr>
       = [(asc ''nakitVeNakitBenzerleri'', PFloat 7)]"
proof -
  have h: "max_column [[PStr (asc ''Stoklar''), PInt 100],
               [PStr (asc ''Nakit ve Nakit Benzerleri''), PInt 7]] \<le> 2"
    by (simp add: max_column_def)
  have l: "PStr (asc ''Nakit ve Nakit Benzerleri'') \<noteq> PNone" "\<not> is_blank (PInt 7)"
    "lookup_label None (normalize_label (py_str (PStr (asc ''Nakit ve Nakit Benzerleri''))))
       = Some (asc ''nakitVeNakitBenzerleri'')"
    "lookup_label None (normalize_label (py_str (PStr (asc ''Stoklar''))))
       = Some (asc ''stoklarDuran'')"
    by (simp_all add: is_blank_simps lookup_label_def first_row_labels first_row_keys)
  from C8_first_row_skipped [OF h, of "asc ''Sheet1''" "[]" "[]"
      "PStr (asc ''Nakit ve Nakit Benzerleri'')" "PInt 7" "asc ''nakitVeNakitBenzerleri''"]
  have "load_from_excel
        \<lparr>wb_first = (asc ''Sheet1'',
           [[PStr (asc ''Stoklar''), PInt 100],
            [PStr (asc ''Nakit ve Nakit Benzerleri''), PInt 7]]),
         wb_rest = []\<rparr>
       = dict_set (load_meta \<lparr>wb_first = (asc ''Sheet1'',
           [[PStr (asc ''Stoklar''), PInt 100],
            [PStr (asc ''Nakit ve Nakit Benzerleri''), PInt 7]]),
         wb_rest = []\<rparr>) (asc ''nakitVeNakitBenzerleri'') (PFloat (cell_amount (PInt 7)))"
    using l by blast
  then have "load_from_excel
        \<lparr>wb_first = (asc ''Sheet1'',
           [[PStr (asc ''Stoklar''), PInt 100],
            [PStr (asc ''Nakit ve Nakit Benzerleri''), PInt 7]]),
         wb_rest = []\<rparr>
       = [(asc ''nakitVeNakitBenzerleri'', PFloat 7)]"
    by (simp add: load_meta_def wb_sheets_def asc_eq_iff cell_amount_simps)
  with h l show ?thesis by blast
qed

section \<open>The format with more than two columns\<close>

lemma keys_dict_set: "fst ` set (dict_set m k v) = insert k (fst ` set m)"
proof (induction m)
  case Nil
  show ?case by simp
next
  case (Cons p m)
  obtain a b where p: "p = (a, b)" by (cases p)
  show ?case
  proof (cases "a = k")
    case True
    then show ?thesis by (simp add: p)
  next
    case False
    then show ?thesis using Cons.IH by (simp add: p insert_commute)
  qed
qed

lemma simple_step_keys: "fst ` set (loaded st) \<subseteq> fst ` set (loaded (simple_step st row))"
  by (auto simp: simple_step_def Let_def keys_dict_set split: option.splits)

lemma detailed_step_keys:
  "fst ` set (loaded st) \<subseteq> fst ` set (loaded (detailed_step lay st row))"
  by (auto simp: detailed_step_def Let_def keys_dict_set)

lemma row_step_keys: "fst ` set (loaded st) \<subseteq> fst ` set (loaded (row_step lay row st))"
  using simple_step_keys [of st row] detailed_step_keys [of st lay row]
  by (simp add: row_step_def)

lemma fold_row_step_keys:
  "fst ` set (loaded st) \<subseteq> fst ` set (loaded (fold (row_step lay) rows st))"
proof (induction rows arbitrary: st)
  case Nil
  show ?case by simp
next
  case (Cons row rows)
  have "fst ` set (loaded st) \<subseteq> fst ` set (loaded (row_step lay row st))"
    by (rule row_step_keys)
  also have "\<dots> \<subseteq> fst ` set (loaded (fold (row_step lay) rows (row_step lay row st)))"
    by (rule Cons.IH)
  finally show ?case by simp
qed

text \<open>A row whose key cell is not blank: the text of the cell is the key, as it stands.\<close>

lemma detailed_step_key_cell:
  assumes "key_col lay \<le> length row" and "\<not> is_blank (row ! (key_col lay - 1))"
  shows "detailed_step lay st row =
    st\<lparr>loaded := dict_set (loaded st) (py_str (row ! (key_col lay - 1)))
         (PFloat (cell_amount (if val_col lay \<le> length row
                               then row ! (val_col lay - 1) else PNone)))\<rparr>"
proof -
  from assms(2) have "row ! (key_col lay - 1) \<noteq> PNone"
    by (auto simp: is_blank_simps)
  with assms show ?thesis
    by (simp add: detailed_step_def Let_def)
qed

lemma fold_row_step_key:
  assumes "row \<in> set rows"
    and "\<And>st. k \<in> fst ` set (loaded (row_step lay row st))"
  shows "k \<in> fst ` set (loaded (fold (row_step lay) rows st))"
proof -
  from assms(1) obtain pre post where rows: "rows = pre @ row # post"
    by (auto simp: in_set_conv_decomp)
  have "k \<in> fst ` set (loaded (row_step lay row (fold (row_step lay) pre st)))"
    by (rule assms(2))
  also have "\<dots> \<subseteq> fst ` set (loaded (fold (row_step lay) post
      (row_step lay row (fold (row_step lay) pre st))))"
    by (rule fold_row_step_keys)
  finally show ?thesis by (simp add: rows)
qed

text \<open>
  C9. In a sheet of four columns or more, a row below the header row whose fourth
  cell is not blank is stored under the text of that cell, whatever the label in its
  third cell is and whether or not the chart of accounts has such a key: the row step
  writes the amount of the fifth cell under it, and the key is among the keys that
  \<^verbatim>\<open>load_from_excel\<close> returns.
\<close>

theorem C9_key_cell_verbatim:
  assumes "4 \<le> max_column ws"
    and "row \<in> set (drop (header_row_idx (detect_layout ws)) (sheet_rows ws))"
    and "\<not> is_blank (row ! 3)"
  shows "row_step (detect_layout ws) row st =
           st\<lparr>loaded := dict_set (loaded st) (py_str (row ! 3))
                (PFloat (cell_amount (if 5 \<le> length row then row ! 4 else PNone)))\<rparr>
         \<and> py_str (row ! 3)
             \<in> fst ` set (load_from_excel \<lparr>wb_first = (nm, ws), wb_rest = others\<rparr>)"
proof -
  let ?lay = "detect_layout ws"
  from assms(1) have wide: "2 < max_column ws" by simp
  have lay: "key_col ?lay = 4" "val_col ?lay = 5" "\<not> is_simple_format ?lay"
    using detect_layout_wide [OF wide] by simp_all
  from assms(2) have "row \<in> set (sheet_rows ws)" by (rule in_set_dropD)
  then have len: "length row = max_column ws" by (rule length_sheet_rows)
  with assms(1) have ne: "row \<noteq> []" by auto
  have step: "row_step ?lay row st' =
      st'\<lparr>loaded := dict_set (loaded st') (py_str (row ! 3))
            (PFloat (cell_amount (if 5 \<le> length row then row ! 4 else PNone)))\<rparr>" for st'
    using detailed_step_key_cell [of ?lay row st'] assms(1,3) len ne
    by (simp add: row_step_def lay)
  have "py_str (row ! 3) \<in> fst ` set (loaded (fold (row_step ?lay)
      (drop (header_row_idx ?lay) (sheet_rows ws))
      \<lparr>current_group = None, loaded = load_meta \<lparr>wb_first = (nm, ws), wb_rest = others\<rparr>\<rparr>))"
    using assms(2) by (rule fold_row_step_key) (simp add: step keys_dict_set)
  then show ?thesis
    by (simp add: step load_from_excel_def Let_def)
qed

lemmas header_eval =
  header_cell_def asc_eval py_strip_id py_isspace_def py_lower_def py_lower_char_def

text \<open>The header row that \<^verbatim>\<open>save_to_excel\<close> writes is found by the scan.\<close>

lemma scan_header_written:
  "scan_header r
     ([PStr (asc ''Taraf''), PStr (asc ''Grup''), PStr (asc ''Etiket''),
       PStr (asc ''Anahtar''), PStr (asc ''Tutar'')] # rows) lay
   = lay\<lparr>header_row_idx := r, key_col := 4, val_col := 5, label_col := 3\<rparr>"
  by (simp add: header_eval)

lemma detect_layout_wide_eq:
  assumes "2 < max_column ws"
  shows "detect_layout ws =
    (scan_header (Suc 0) (take 10 (sheet_rows ws))
       \<lparr>is_simple_format = False, header_row_idx = Suc 0, key_col = 0, val_col = 0,
          label_col = 0\<rparr>)
      \<lparr>key_col := 4, val_col := 5, label_col := 3\<rparr>"
  using assms by (simp add: detect_layout_def Let_def scan_header_simple del: scan_header.simps)

lemma py_float_str_AKTIF: "py_float_str (asc ''AKTIF'') = None"
  by (simp add: py_float_str_def asc_eval py_strip_id py_isspace_def strip_sign_def cut_at_def
      is_digit_def)

lemma not_schema_key_fooBar:
  "asc ''fooBar'' \<notin> set (DONEN_KEYS @ DURAN_KEYS @ KV_KEYS @ UV_KEYS @ OZ_KEYS)"
  by (simp add: DONEN_KEYS_eq DURAN_KEYS_eq KV_KEYS_eq UV_KEYS_eq OZ_KEYS_eq asc_eq_iff)

theorem C9_key_cell_verbatim_witness:
  "4 \<le> max_column
      [[PStr (asc ''Taraf''), PStr (asc ''Grup''), PStr (asc ''Etiket''),
        PStr (asc ''Anahtar''), PStr (asc ''Tutar'')],
       [PStr (asc ''AKTIF''), PNone, PStr (asc ''Stoklar''), PStr (asc ''fooBar''), PInt 7]]
   \<and> \<not> is_blank (PStr (asc ''fooBar''))
   \<and> asc ''fooBar'' \<notin> set (DONEN_KEYS @ DURAN_KEYS @ KV_KEYS @ UV_KEYS @ OZ_KEYS)
   \<and> asc ''fooBar'' \<in> fst ` set (load_from_excel
        \<lparr>wb_first = (asc ''Sheet1'',
           [[PStr (asc ''Taraf''), PStr (asc ''Grup''), PStr (asc ''Etiket''),
             PStr (asc ''Anahtar''), PStr (asc ''Tutar'')],
            [PStr (asc ''AKTIF''), PNone, PStr (asc ''Stoklar''), PStr (asc ''fooBar''),
             PInt 7]]),
          wb_rest = []\<rparr>)"
proof -
  let ?hdr = "[PStr (asc ''Taraf''), PStr (asc ''Grup''), PStr (asc ''Etiket''),
        PStr (asc ''Anahtar''), PStr (asc ''Tutar'')]"
  let ?row = "[PStr (asc ''AKTIF''), PNone, PStr (asc ''Stoklar''), PStr (asc ''fooBar''), PInt 7]"
  have mc: "max_column [?hdr, ?row] = 5" by (simp add: max_column_def)
  have rows: "sheet_rows [?hdr, ?row] = [?hdr, ?row]"
    by (simp add: sheet_rows_def mc pad_row_def)
  have hdr: "header_row_idx (detect_layout [?hdr, ?row]) = 1"
    by (simp add: detect_layout_wide_eq mc rows scan_header_written del: scan_header.simps)
  have h1: "4 \<le> max_column [?hdr, ?row]" by (simp add: mc)
  have h2: "?row \<in> set (drop (header_row_idx (detect_layout [?hdr, ?row])) (sheet_rows [?hdr, ?row]))"
    by (simp add: hdr rows)
  have h3: "\<not> is_blank (?row ! 3)"
    by (simp add: is_blank_simps asc_eval py_isspace_def)
  from C9_key_cell_verbatim [OF h1 h2 h3, of undefined "asc ''Sheet1''" "[]"]
  have "asc ''fooBar'' \<in> fst ` set (load_from_excel \<lparr>wb_first = (asc ''Sheet1'', [?hdr, ?row]),
          wb_rest = []\<rparr>)"
    by simp
  with h1 h3 not_schema_key_fooBar show ?thesis by simp
qed

text \<open>
  C2. A sheet whose header row names the key column first, the amount second and the
  label third: the scan finds the header in row 1 with these columns, but the layout
  that is used has the columns 4, 5 and 3, so the data row is stored under the text of
  its fourth cell with the amount 0 that its fifth cell converts to.
\<close>

theorem C2_detected_columns_overwritten:
  "scan_header 1
      (sheet_rows
        [[PStr (asc ''Anahtar''), PStr (asc ''Tutar''), PStr (asc ''Etiket''),
          PStr (asc ''Grup''), PStr (asc ''Taraf'')],
         [PStr (asc ''stoklar''), PInt 250, PStr (asc ''Stoklar''),
          PStr (tr ''D~onen Varl~iklar''), PStr (asc ''AKTIF'')]])
      \<lparr>is_simple_format = False, header_row_idx = 1, key_col = 0, val_col = 0, label_col = 0\<rparr>
    = \<lparr>is_simple_format = False, header_row_idx = 1, key_col = 1, val_col = 2, label_col = 3\<rparr>
   \<and> detect_layout
        [[PStr (asc ''Anahtar''), PStr (asc ''Tutar''), PStr (asc ''Etiket''),
          PStr (asc ''Grup''), PStr (asc ''Taraf'')],
         [PStr (asc ''stoklar''), PInt 250, PStr (asc ''Stoklar''),
          PStr (tr ''D~onen Varl~iklar''), PStr (asc ''AKTIF'')]]
    = \<lparr>is_simple_format = False, header_row_idx = 1, key_col = 4, val_col = 5, label_col = 3\<rparr>
   \<and> load_from_excel
        \<lparr>wb_first = (asc ''Sheet1'',
           [[PStr (asc ''Anahtar''), PStr (asc ''Tutar''), PStr (asc ''Etiket''),
             PStr (asc ''Grup''), PStr (asc ''Taraf'')],
            [PStr (asc ''stoklar''), PInt 250, PStr (asc ''Stoklar''),
             PStr (tr ''D~onen Varl~iklar''), PStr (asc ''AKTIF'')]]),
          wb_rest = []\<rparr>
    = [(tr ''D~onen Varl~iklar'', PFloat 0)]"
proof -
  let ?hdr = "[PStr (asc ''Anahtar''), PStr (asc ''Tutar''), PStr (asc ''Etiket''),
          PStr (asc ''Grup''), PStr (asc ''Taraf'')]"
  let ?row = "[PStr (asc ''stoklar''), PInt 250, PStr (asc ''Stoklar''),
          PStr (tr ''D~onen Varl~iklar''), PStr (asc ''AKTIF'')]"
  let ?start = "\<lparr>is_simple_format = False, header_row_idx = 1, key_col = 0, val_col = 0,
          label_col = 0\<rparr>"
  have mc: "max_column [?hdr, ?row] = 5" by (simp add: max_column_def)
  have rows: "sheet_rows [?hdr, ?row] = [?hdr, ?row]"
    by (simp add: sheet_rows_def mc pad_row_def)
  have scan: "scan_header (Suc 0) [?hdr, ?row]
        \<lparr>is_simple_format = False, header_row_idx = Suc 0, key_col = 0, val_col = 0,
           label_col = 0\<rparr>
      = \<lparr>is_simple_format = False, header_row_idx = 1, key_col = 1, val_col = 2, label_col = 3\<rparr>"
    by (simp add: header_eval)
  let ?L = "\<lparr>is_simple_format = False, header_row_idx = Suc 0, key_col = 4, val_col = 5,
          label_col = 3\<rparr>"
  have lay: "detect_layout [?hdr, ?row] = ?L"
    by (simp add: detect_layout_wide_eq mc rows scan del: scan_header.simps)
  have nb: "\<not> is_blank (PStr (tr ''D~onen Varl~iklar''))"
    by (simp add: is_blank_simps tr_eval py_isspace_def)
  have amount: "cell_amount (PStr (asc ''AKTIF'')) = 0"
    by (simp add: cell_amount_def py_float_str_AKTIF)
  have step: "row_step ?L ?row st
      = st\<lparr>loaded := dict_set (loaded st) (tr ''D~onen Varl~iklar'') (PFloat 0)\<rparr>" for st
    using detailed_step_key_cell [of ?L ?row st] nb
    by (simp add: row_step_def amount)
  have "load_from_excel \<lparr>wb_first = (asc ''Sheet1'', [?hdr, ?row]), wb_rest = []\<rparr>
      = [(tr ''D~onen Varl~iklar'', PFloat 0)]"
    unfolding load_from_excel_def Let_def
    by (simp add: rows step lay load_meta_def wb_sheets_def asc_eq_iff)
  with scan lay rows show ?thesis by simp
qed

section \<open>Numbers in the file\<close>

lemma round_half_even_error:
  assumes "0 \<le> y"
  shows "\<bar>real (round_half_even y) - y\<bar> \<le> 1 / 2"
proof -
  have f: "real (nat \<lfloor>y\<rfloor>) = of_int \<lfloor>y\<rfloor>" using assms by simp
  have b: "of_int \<lfloor>y\<rfloor> \<le> y" "y < of_int \<lfloor>y\<rfloor> + 1" by linarith+
  consider "y - of_int \<lfloor>y\<rfloor> < 1 / 2" | "1 / 2 < y - of_int \<lfloor>y\<rfloor>"
    | "y - of_int \<lfloor>y\<rfloor> = 1 / 2" by linarith
  then show ?thesis
  proof cases
    case 1
    then have "round_half_even y = nat \<lfloor>y\<rfloor>" by (simp add: round_half_even_def f)
    with 1 b show ?thesis by (simp add: f)
  next
    case 2
    then have "round_half_even y = nat \<lfloor>y\<rfloor> + 1" by (simp add: round_half_even_def f)
    then have "real (round_half_even y) = of_int \<lfloor>y\<rfloor> + 1" by (simp add: f)
    with 2 b show ?thesis by linarith
  next
    case 3
    then have "round_half_even y = nat \<lfloor>y\<rfloor> \<or> round_half_even y = nat \<lfloor>y\<rfloor> + 1"
      by (simp add: round_half_even_def f Let_def)
    then have "real (round_half_even y) = of_int \<lfloor>y\<rfloor>
        \<or> real (round_half_even y) = of_int \<lfloor>y\<rfloor> + 1"
      using f by (metis of_nat_Suc Suc_eq_plus1 add.commute)
    with 3 show ?thesis by linarith
  qed
qed

lemma round_half_even_nat: "round_half_even (real n) = n"
  by (simp add: round_half_even_def)

lemma length_digits_le: "n < 10 ^ k \<Longrightarrow> 0 < k \<Longrightarrow> length (digits n) \<le> k"
proof (induction k arbitrary: n)
  case 0
  then show ?case by simp
next
  case (Suc k)
  show ?case
  proof (cases "n < 10")
    case True
    then show ?thesis by (simp add: digits.simps [of n])
  next
    case False
    with Suc.prems have k: "0 < k" by (cases k) auto
    from Suc.prems have "n div 10 < 10 ^ k" by (simp add: less_mult_imp_div_less mult.commute)
    then have "length (digits (n div 10)) \<le> k" using k by (rule Suc.IH)
    with False show ?thesis by (simp add: digits.simps [of n])
  qed
qed

lemma length_digits_eq: "10 ^ k \<le> n \<Longrightarrow> n < 10 ^ Suc k \<Longrightarrow> length (digits n) = Suc k"
proof (induction k arbitrary: n)
  case 0
  then show ?case by (simp add: digits.simps [of n])
next
  case (Suc k)
  have "(1 :: nat) \<le> 10 ^ k" by simp
  moreover from Suc.prems(1) have "10 * 10 ^ k \<le> n" by simp
  ultimately have ge: "\<not> n < 10" by linarith
  from Suc.prems have "10 ^ k \<le> n div 10" "n div 10 < 10 ^ Suc k"
    by (simp_all add: less_mult_imp_div_less mult.commute div_le_mono2 le_div_geq)
  then have "length (digits (n div 10)) = Suc k" by (rule Suc.IH)
  with ge show ?case by (simp add: digits.simps [of n])
qed

lemma decimal_exponent_le:
  assumes "\<bar>x\<bar> < 10 ^ n" and "0 < n"
  shows "decimal_exponent x \<le> int n - 1"
proof (cases "1 \<le> \<bar>x\<bar>")
  case True
  have "\<lfloor>\<bar>x\<bar>\<rfloor> < 10 ^ n" using assms(1) by (simp add: floor_less_iff)
  then have "nat \<lfloor>\<bar>x\<bar>\<rfloor> < 10 ^ n" by (simp add: nat_less_iff)
  then have "length (digits (nat \<lfloor>\<bar>x\<bar>\<rfloor>)) \<le> n" using assms(2) by (rule length_digits_le)
  with True show ?thesis by (simp add: decimal_exponent_def)
next
  case False
  with assms(2) show ?thesis by (simp add: decimal_exponent_def)
qed

lemma scale10_powi: "scale10 k x = x * 10 powi k"
  by (simp add: scale10_def power_int_def field_simps)

lemma round_sig16_diff:
  assumes "x \<noteq> 0"
  shows "\<bar>round_sig16 x - x\<bar> =
     \<bar>real (round_half_even (\<bar>x\<bar> * 10 powi (15 - decimal_exponent x)))
        - \<bar>x\<bar> * 10 powi (15 - decimal_exponent x)\<bar> * 10 powi (decimal_exponent x - 15)"
proof -
  let ?k = "15 - decimal_exponent x"
  let ?y = "\<bar>x\<bar> * 10 powi ?k"
  have p: "(10 :: real) powi ?k * 10 powi (- ?k) = 1"
    by (subst power_int_add [symmetric]) simp_all
  have "\<bar>x\<bar> = ?y * 10 powi (- ?k)" using p by (simp add: mult.assoc)
  then have "x = sgn x * (?y * 10 powi (- ?k))"
    by (metis mult_sgn_abs mult.commute)
  then have "round_sig16 x - x = sgn x * ((real (round_half_even ?y) - ?y) * 10 powi (- ?k))"
    using assms by (simp add: round_sig16_def Let_def scale10_powi algebra_simps)
  then have "\<bar>round_sig16 x - x\<bar> = \<bar>real (round_half_even ?y) - ?y\<bar> * 10 powi (- ?k)"
    using assms by (simp add: abs_mult abs_sgn_eq)
  then show ?thesis by simp
qed

lemma round_sig16_error:
  "\<bar>round_sig16 x - x\<bar> \<le> scale10 (decimal_exponent x - 15) (1 / 2)"
proof (cases "x = 0")
  case True
  then show ?thesis by (simp add: round_sig16_def scale10_powi)
next
  case False
  have "\<bar>real (round_half_even (\<bar>x\<bar> * 10 powi (15 - decimal_exponent x)))
        - \<bar>x\<bar> * 10 powi (15 - decimal_exponent x)\<bar> \<le> 1 / 2"
    by (rule round_half_even_error) simp
  then show ?thesis
    unfolding round_sig16_diff [OF False] scale10_powi
    by (intro mult_right_mono) simp_all
qed

lemma round_sig16_small:
  assumes "\<bar>x\<bar> < 10 ^ 7"
  shows "\<bar>round_sig16 x - x\<bar> \<le> 1 / 10 ^ 9"
proof -
  have "decimal_exponent x \<le> 6" using decimal_exponent_le [OF assms] by simp
  then have "(10 :: real) powi (decimal_exponent x - 15) \<le> 10 powi (- 9)"
    by (intro power_int_increasing) simp_all
  then have "scale10 (decimal_exponent x - 15) (1 / 2) \<le> 1 / 10 ^ 9"
    by (simp add: scale10_powi power_int_minus)
  with round_sig16_error [of x] show ?thesis by linarith
qed

lemma round_sig16_exact:
  assumes "\<bar>x\<bar> < 10 ^ 14" and "x * 100 = of_int \<lfloor>x * 100\<rfloor>"
  shows "round_sig16 x = x"
proof (cases "x = 0")
  case True
  then show ?thesis by (simp add: round_sig16_def)
next
  case False
  let ?k = "15 - decimal_exponent x"
  have "decimal_exponent x \<le> 13" using decimal_exponent_le [OF assms(1)] by simp
  then have k: "2 \<le> ?k" by simp
  have "\<bar>x\<bar> * 100 = \<bar>of_int \<lfloor>x * 100\<rfloor>\<bar>" using assms(2) by (simp add: abs_mult)
  also have "\<dots> = real (nat \<bar>\<lfloor>x * 100\<rfloor>\<bar>)" by simp
  finally have m: "\<bar>x\<bar> * 100 = real (nat \<bar>\<lfloor>x * 100\<rfloor>\<bar>)" .
  have "(10 :: real) powi ?k = 10 powi 2 * 10 powi (?k - 2)"
    by (subst power_int_add [symmetric]) simp_all
  also have "\<dots> = 100 * 10 ^ nat (?k - 2)"
    using k by (simp add: power_int_def)
  finally have "\<bar>x\<bar> * 10 powi ?k = real (nat \<bar>\<lfloor>x * 100\<rfloor>\<bar> * 10 ^ nat (?k - 2))"
    using m by simp
  then have "real (round_half_even (\<bar>x\<bar> * 10 powi ?k)) = \<bar>x\<bar> * 10 powi ?k"
    by (simp only: round_half_even_nat)
  then have "\<bar>round_sig16 x - x\<bar> = 0"
    unfolding round_sig16_diff [OF False] by simp
  then show ?thesis by simp
qed

lemma stored_number_amount:
  "\<not> is_blank (stored_number x)" "cell_amount (stored_number x) = round_sig16 x"
  by (auto simp: stored_number_def Let_def is_blank_simps cell_amount_simps)

section \<open>Writing and reading back\<close>

lemma group_rows_mem:
  assumes "(label, key) \<in> set flds" and "\<not> is_dummy key"
  shows "(side, grp, label, key, row_amount d key) \<in> set (group_rows d side (grp, flds))"
  using assms by (force simp: group_rows_def)

lemma build_rows_mem:
  assumes "(label, key) \<in> set (concat (map snd all_groups))" and "\<not> is_dummy key"
  shows "\<exists>side grp. (side, grp, label, key, row_amount d key)
           \<in> set (build_excel_rows_from_data d)"
proof -
  from assms(1) obtain grp flds where g: "(grp, flds) \<in> set all_groups" "(label, key) \<in> set flds"
    by (fastforce simp: set_concat)
  from g(1) obtain side where s: "side \<in> set [asc ''AKTIF'', asc ''PASIF'']"
      "(grp, flds) \<in> set (dict_get SECTION_FIELDS side [])"
    unfolding all_groups_def set_concat by auto
  have "(side, grp, label, key, row_amount d key) \<in> set (group_rows d side (grp, flds))"
    using g(2) assms(2) by (rule group_rows_mem)
  with s have "(side, grp, label, key, row_amount d key) \<in> set (build_excel_rows_from_data d)"
    unfolding build_excel_rows_from_data_def set_concat by (auto intro!: bexI [of _ side])
  then show ?thesis by blast
qed

lemma build_rows_amount:
  assumes "(side, grp, label, key, v) \<in> set (build_excel_rows_from_data d)"
  shows "v = row_amount d key"
  using assms unfolding build_excel_rows_from_data_def set_concat
  by (auto simp: group_rows_def)

lemma stored_row_eq:
  "stored_row (side, grp, label, key, v)
     = [PStr side, PStr grp, PStr label, PStr key, stored_number v]"
  by (simp add: stored_row_def excel_row_def)

lemma length_stored_row: "length (stored_row r) = 5"
  by (cases r) (simp add: stored_row_eq)

lemma fold_max_le:
  assumes "\<And>row. row \<in> set ws \<Longrightarrow> length row \<le> n" and "a \<le> n"
  shows "fold (\<lambda>row m. max (length row) m) ws a \<le> n"
  using assms by (induction ws arbitrary: a) simp_all

lemma max_column_all:
  assumes "\<And>row. row \<in> set ws \<Longrightarrow> length row = n" and "ws \<noteq> []" and "1 \<le> n"
  shows "max_column ws = n"
proof (rule antisym)
  show "max_column ws \<le> n"
    unfolding max_column_def using assms by (intro fold_max_le) auto
  from assms(2) obtain r where "r \<in> set ws" by (cases ws) auto
  then show "n \<le> max_column ws"
    using length_le_max_column [of r ws] assms(1) by auto
qed

text \<open>A row that \<^verbatim>\<open>save_to_excel\<close> wrote is read back under its key.\<close>

lemma row_step_stored_row:
  assumes "key_col lay = 4" and "val_col lay = 5" and "\<not> is_simple_format lay"
  shows "row_step lay (stored_row (side, grp, label, key, v)) st
           = st\<lparr>loaded := dict_set (loaded st) key (PFloat (round_sig16 v))\<rparr>"
  using assms
  by (simp add: row_step_def stored_row_eq detailed_step_def Let_def is_blank_simps
      stored_number_amount)

lemma fold_stored_rows:
  assumes "key_col lay = 4" and "val_col lay = 5" and "\<not> is_simple_format lay"
  shows "fold (row_step lay) (map stored_row rows) st
           = st\<lparr>loaded :=
                 fold (\<lambda>(side, grp, label, key, v) m. dict_set m key (PFloat (round_sig16 v)))
                   rows (loaded st)\<rparr>"
proof (induction rows arbitrary: st)
  case Nil
  show ?case by simp
next
  case (Cons r rows)
  obtain side grp label key v where r: "r = (side, grp, label, key, v)" by (cases r)
  show ?case
    by (simp add: r row_step_stored_row [OF assms] Cons.IH)
qed

lemma assoc_fold_rows:
  assumes "(side, grp, label, key, x) \<in> set rows"
    and "\<And>side grp label v. (side, grp, label, key, v) \<in> set rows \<Longrightarrow> v = x"
  shows "assoc (fold (\<lambda>(side, grp, label, key, v) m. dict_set m key (PFloat (round_sig16 v)))
            rows m) key
           = Some (PFloat (round_sig16 x))"
  using assms
proof (induction rows arbitrary: side grp label rule: rev_induct)
  case Nil
  then show ?case by simp
next
  case (snoc r rows)
  obtain s g l k v where r: "r = (s, g, l, k, v)" by (cases r)
  show ?case
  proof (cases "k = key")
    case True
    with snoc.prems(2) [of s g l v] have "v = x" by (simp add: r)
    with True show ?thesis by (simp add: r assoc_dict_set)
  next
    case False
    with snoc.prems(1) have "(side, grp, label, key, x) \<in> set rows" by (simp add: r)
    then have "assoc (fold (\<lambda>(side, grp, label, key, v) m.
          dict_set m key (PFloat (round_sig16 v))) rows m) key
        = Some (PFloat (round_sig16 x))"
      using snoc.prems(2) by (intro snoc.IH) auto
    with False show ?thesis by (simp add: r assoc_dict_set)
  qed
qed

lemma load_saved:
  "load_from_excel (save_to_excel d) =
     fold (\<lambda>(side, grp, label, key, v) m. dict_set m key (PFloat (round_sig16 v)))
       (build_excel_rows_from_data d) (load_meta (save_to_excel d))"
proof -
  let ?hdr = "[PStr (asc ''Taraf''), PStr (asc ''Grup''), PStr (asc ''Etiket''),
        PStr (asc ''Anahtar''), PStr (asc ''Tutar'')]"
  let ?rows = "map stored_row (build_excel_rows_from_data d)"
  let ?L = "\<lparr>is_simple_format = False, header_row_idx = Suc 0, key_col = 4, val_col = 5,
          label_col = 3\<rparr>"
  have ws: "snd (wb_first (save_to_excel d)) = ?hdr # ?rows"
    by (simp add: save_to_excel_def)
  have mc: "max_column (?hdr # ?rows) = 5"
    by (rule max_column_all) (auto simp: length_stored_row)
  have rows: "sheet_rows (?hdr # ?rows) = ?hdr # ?rows"
    by (simp add: sheet_rows_def mc pad_row_def length_stored_row)
  have lay: "detect_layout (?hdr # ?rows) = ?L"
    by (simp add: detect_layout_wide_eq mc rows scan_header_written del: scan_header.simps)
  show ?thesis
    unfolding load_from_excel_def Let_def ws lay
    by (simp add: rows fold_stored_rows)
qed

lemma row_amount_PFloat: "assoc d key = Some (PFloat x) \<Longrightarrow> row_amount d key = x"
  by (simp add: row_amount_def get_float_def dict_get_def py_or_def)

lemma load_saved_key:
  assumes "(label, key) \<in> set (concat (map snd all_groups))" and "\<not> is_dummy key"
  shows "assoc (load_from_excel (save_to_excel d)) key
           = Some (PFloat (round_sig16 (row_amount d key)))"
proof -
  from build_rows_mem [OF assms] obtain side grp where
    "(side, grp, label, key, row_amount d key) \<in> set (build_excel_rows_from_data d)"
    by blast
  then show ?thesis
    unfolding load_saved by (rule assoc_fold_rows) (rule build_rows_amount)
qed

lemma stoklar_field: "(asc ''Stoklar'', asc ''stoklar'') \<in> set (concat (map snd all_groups))"
proof -
  have "(asc ''Stoklar'', asc ''stoklar'') \<in> set fields_donen"
    unfolding fields_donen_def by (simp only: list.set insert_iff simp_thms)
  then show ?thesis by (simp add: all_groups_eq)
qed

lemma stoklar_not_dummy: "\<not> is_dummy (asc ''stoklar'')"
  by (simp add: is_dummy_eval asc_eval)

text \<open>
  C4, as amended. For every entry mapping and every key of the chart of accounts that
  is not a subtotal marker, the sheet that \<^verbatim>\<open>save_to_excel\<close> writes is read back
  by \<^verbatim>\<open>load_from_excel\<close> with the amount written for the key, rounded to the 16
  significant digits that the file keeps. The amount read is within half a unit of the
  16th digit of the amount written; within \<open>1e-9\<close> when the amount is below \<open>10 ^ 7\<close>
  in magnitude; and the amount written itself when that is a whole number of hundredths
  below \<open>10 ^ 14\<close>. The amount written is the entry's own when the entry is a float.
\<close>

theorem C4_round_trip:
  assumes "(label, key) \<in> set (concat (map snd all_groups))" and "\<not> is_dummy key"
  shows "assoc (load_from_excel (save_to_excel d)) key
           = Some (PFloat (round_sig16 (row_amount d key)))
         \<and> \<bar>round_sig16 (row_amount d key) - row_amount d key\<bar>
             \<le> scale10 (decimal_exponent (row_amount d key) - 15) (1 / 2)
         \<and> (\<bar>row_amount d key\<bar> < 10 ^ 7
              \<longrightarrow> \<bar>round_sig16 (row_amount d key) - row_amount d key\<bar> \<le> 1 / 10 ^ 9)
         \<and> (\<bar>row_amount d key\<bar> < 10 ^ 14
              \<and> row_amount d key * 100 = of_int \<lfloor>row_amount d key * 100\<rfloor>
              \<longrightarrow> assoc (load_from_excel (save_to_excel d)) key
                    = Some (PFloat (row_amount d key)))
         \<and> (assoc d key = Some (PFloat x) \<longrightarrow> row_amount d key = x)"
  using load_saved_key [OF assms, of d] round_sig16_error [of "row_amount d key"]
    round_sig16_small [of "row_amount d key"] round_sig16_exact [of "row_amount d key"]
    row_amount_PFloat [of d key x]
  by simp

theorem C4_round_trip_witness:
  "(asc ''Stoklar'', asc ''stoklar'') \<in> set (concat (map snd all_groups))
   \<and> \<not> is_dummy (asc ''stoklar'')
   \<and> assoc [(asc ''stoklar'', PFloat 1234.56)] (asc ''stoklar'') = Some (PFloat 1234.56)
   \<and> \<bar>1234.56 :: real\<bar> < 10 ^ 7
   \<and> (1234.56 :: real) * 100 = of_int \<lfloor>(1234.56 :: real) * 100\<rfloor>
   \<and> assoc (load_from_excel (save_to_excel [(asc ''stoklar'', PFloat 1234.56)])) (asc ''stoklar'')
       = Some (PFloat 1234.56)"
proof -
  have a: "assoc [(asc ''stoklar'', PFloat 1234.56)] (asc ''stoklar'') = Some (PFloat 1234.56)"
    by simp
  have r: "row_amount [(asc ''stoklar'', PFloat 1234.56)] (asc ''stoklar'') = 1234.56"
    using a by (rule row_amount_PFloat)
  have n: "\<bar>1234.56 :: real\<bar> < 10 ^ 7" "\<bar>1234.56 :: real\<bar> < 10 ^ 14"
    "(1234.56 :: real) * 100 = of_int \<lfloor>(1234.56 :: real) * 100\<rfloor>"
    by simp_all
  from C4_round_trip [OF stoklar_field stoklar_not_dummy,
      of "[(asc ''stoklar'', PFloat 1234.56)]" "1234.56"]
  have "assoc (load_from_excel (save_to_excel [(asc ''stoklar'', PFloat 1234.56)]))
      (asc ''stoklar'') = Some (PFloat 1234.56)"
    unfolding r using n by blast
  with stoklar_field stoklar_not_dummy a n show ?thesis by simp
qed

lemma round_sig16_example: "round_sig16 123456789.12345679 = 123456789.1234568"
proof -
  define x :: real where "x = 123456789.12345679"
  define y :: real where "y = 1234567891234567.9"
  have x: "1 \<le> \<bar>x\<bar>" "x \<noteq> 0" "sgn x = 1" by (simp_all add: x_def)
  have "\<lfloor>\<bar>x\<bar>\<rfloor> = 123456789" by (rule floor_unique) (simp_all add: x_def)
  moreover have "length (digits 123456789) = Suc 8" by (rule length_digits_eq) simp_all
  ultimately have e: "decimal_exponent x = 8" using x(1) by (simp add: decimal_exponent_def)
  have k: "(15 :: int) - 8 = 7" by simp
  have s: "scale10 7 \<bar>x\<bar> = y" by (simp add: scale10_def x_def y_def)
  have "\<lfloor>y\<rfloor> = 1234567891234567" by (rule floor_unique) (simp_all add: y_def)
  then have r: "round_half_even y = 1234567891234568"
    unfolding round_half_even_def Let_def by (simp add: y_def)
  have "round_sig16 x = 123456789.1234568"
    unfolding round_sig16_def Let_def e k s r using x by (simp add: scale10_def)
  then show ?thesis unfolding x_def .
qed

text \<open>
  C4, as stated: the amount \<open>123456789.12345679\<close> is read back as
  \<open>123456789.1234568\<close>, which is \<open>1e-8\<close> away, more than the tolerance of \<open>1e-9\<close>.
\<close>

theorem C4_counterexample:
  "assoc (load_from_excel (save_to_excel [(asc ''stoklar'', PFloat 123456789.12345679)]))
      (asc ''stoklar'') = Some (PFloat 123456789.1234568)
   \<and> \<bar>123456789.1234568 - 123456789.12345679 :: real\<bar> > 1 / 10 ^ 9"
proof -
  have "row_amount [(asc ''stoklar'', PFloat 123456789.12345679)] (asc ''stoklar'')
      = 123456789.12345679"
    by (rule row_amount_PFloat) simp
  then have "assoc (load_from_excel (save_to_excel
        [(asc ''stoklar'', PFloat 123456789.12345679)])) (asc ''stoklar'')
      = Some (PFloat 123456789.1234568)"
    unfolding load_saved_key [OF stoklar_field stoklar_not_dummy] round_sig16_example
    by (simp only: round_sig16_example)
  moreover have "\<bar>123456789.1234568 - 123456789.12345679 :: real\<bar> > 1 / 10 ^ 9" by simp
  ultimately show ?thesis by (rule conjI)
qed

section \<open>The alias table\<close>

lemma all_labels_mem:
  "(l, k) \<in> set fields_donen \<Longrightarrow> l \<in> set all_labels"
  "(l, k) \<in> set fields_duran \<Longrightarrow> l \<in> set all_labels"
  "(l, k) \<in> set fields_kv \<Longrightarrow> l \<in> set all_labels"
  "(l, k) \<in> set fields_uv \<Longrightarrow> l \<in> set all_labels"
  "(l, k) \<in> set fields_oz \<Longrightarrow> l \<in> set all_labels"
  by (force simp: all_labels_def all_groups_eq)+

lemma alias_targets:
  "tr ''D~onem Kar~i Vergi Y~uk~uml~ul~u~g~u'' \<in> set all_labels"
  "tr ''Cari D~onem Vergisiyle ~Ilgili Varl~iklar'' \<in> set all_labels"
  "tr ''Cari D~onem Vergisiyle ~Ilgili Bor~clar'' \<in> set all_labels"
  "tr ''~Ozkaynak Y~ontemiyle De~gerlenen Yat~ir~imlardan Y~uk~uml~ul~ukler'' \<in> set all_labels"
  "tr ''~Ozkaynak Y~ontemiyle De~gerlenen Yat~ir~imlar'' \<in> set all_labels"
  "tr ''Pe~sin ~Odenmi~s Giderler'' \<in> set all_labels"
  "tr ''Ertelenmi~s Vergi Varl~i~g~i'' \<in> set all_labels"
  "tr ''Ertelenmi~s Gelirler'' \<in> set all_labels"
  "tr ''T~urkiye Cumhuriyet Merkez Bankas~i Hesab~i'' \<in> set all_labels"
proof -
  have "(tr ''D~onem Kar~i Vergi Y~uk~uml~ul~u~g~u'', asc ''donemKariVergiYukumluluguKV'') \<in> set fields_kv"
    unfolding fields_kv_def by (simp only: list.set insert_iff simp_thms)
  then show "tr ''D~onem Kar~i Vergi Y~uk~uml~ul~u~g~u'' \<in> set all_labels"
    by (rule all_labels_mem)
  have "(tr ''Cari D~onem Vergisiyle ~Ilgili Varl~iklar'', asc ''cariDonemVergisiyleIlgiliVarliklarDonen'') \<in> set fields_donen"
    unfolding fields_donen_def by (simp only: list.set insert_iff simp_thms)
  then show "tr ''Cari D~onem Vergisiyle ~Ilgili Varl~iklar'' \<in> set all_labels"
    by (rule all_labels_mem)
  have "(tr ''Cari D~onem Vergisiyle ~Ilgili Bor~clar'', asc ''cariDonemVergisiyleIlgiliBorclarUV'') \<in> set fields_uv"
    unfolding fields_uv_def by (simp only: list.set insert_iff simp_thms)
  then show "tr ''Cari D~onem Vergisiyle ~Ilgili Bor~clar'' \<in> set all_labels"
    by (rule all_labels_mem)
  have "(tr ''~Ozkaynak Y~ontemiyle De~gerlenen Yat~ir~imlardan Y~uk~uml~ul~ukler'', asc ''ozkaynakYontemiyleDegerlenenYatirimlardanYukumluluklerKV'') \<in> set fields_kv"
    unfolding fields_kv_def by (simp only: list.set insert_iff simp_thms)
  then show "tr ''~Ozkaynak Y~ontemiyle De~gerlenen Yat~ir~imlardan Y~uk~uml~ul~ukler'' \<in> set all_labels"
    by (rule all_labels_mem)
  have "(tr ''~Ozkaynak Y~ontemiyle De~gerlenen Yat~ir~imlar'', asc ''ozkaynakYontemiyleDegerlenenYatirimlar'') \<in> set fields_duran"
    unfolding fields_duran_def by (simp only: list.set insert_iff simp_thms)
  then show "tr ''~Ozkaynak Y~ontemiyle De~gerlenen Yat~ir~imlar'' \<in> set all_labels"
    by (rule all_labels_mem)
  have "(tr ''Pe~sin ~Odenmi~s Giderler'', asc ''pesinOdenmisGiderlerDonen'') \<in> set fields_donen"
    unfolding fields_donen_def by (simp only: list.set insert_iff simp_thms)
  then show "tr ''Pe~sin ~Odenmi~s Giderler'' \<in> set all_labels"
    by (rule all_labels_mem)
  have "(tr ''Ertelenmi~s Vergi Varl~i~g~i'', asc ''ertelenmisVergiVarligiDuran'') \<in> set fields_duran"
    unfolding fields_duran_def by (simp only: list.set insert_iff simp_thms)
  then show "tr ''Ertelenmi~s Vergi Varl~i~g~i'' \<in> set all_labels"
    by (rule all_labels_mem)
  have "(tr ''Ertelenmi~s Gelirler'', asc ''ertelenmisGelirlerKV'') \<in> set fields_kv"
    unfolding fields_kv_def by (simp only: list.set insert_iff simp_thms)
  then show "tr ''Ertelenmi~s Gelirler'' \<in> set all_labels"
    by (rule all_labels_mem)
  have "(tr ''T~urkiye Cumhuriyet Merkez Bankas~i Hesab~i'', asc ''tcmbHesabi'') \<in> set fields_donen"
    unfolding fields_donen_def by (simp only: list.set insert_iff simp_thms)
  then show "tr ''T~urkiye Cumhuriyet Merkez Bankas~i Hesab~i'' \<in> set all_labels"
    by (rule all_labels_mem)
qed

lemma alias_target_norms:
  "normalize_label (tr ''D~onem Kar~i Vergi Y~uk~uml~ul~u~g~u'') = asc ''donem kar vergi yukumlulugu''"
  "normalize_label (tr ''Cari D~onem Vergisiyle ~Ilgili Varl~iklar'') = asc ''cari donem vergisiyle ilgili varl klar''"
  "normalize_label (tr ''Cari D~onem Vergisiyle ~Ilgili Bor~clar'') = asc ''cari donem vergisiyle ilgili borclar''"
  "normalize_label (tr ''~Ozkaynak Y~ontemiyle De~gerlenen Yat~ir~imlardan Y~uk~uml~ul~ukler'') = asc ''ozkaynak yontemiyle degerlenen yat r mlardan yukumlulukler''"
  "normalize_label (tr ''~Ozkaynak Y~ontemiyle De~gerlenen Yat~ir~imlar'') = asc ''ozkaynak yontemiyle degerlenen yat r mlar''"
  "normalize_label (tr ''Pe~sin ~Odenmi~s Giderler'') = asc ''pesin odenmis giderler''"
  "normalize_label (tr ''Ertelenmi~s Vergi Varl~i~g~i'') = asc ''ertelenmis vergi varl g''"
  "normalize_label (tr ''Ertelenmi~s Gelirler'') = asc ''ertelenmis gelirler''"
  "normalize_label (tr ''T~urkiye Cumhuriyet Merkez Bankas~i Hesab~i'') = asc ''turkiye cumhuriyet merkez bankas hesab''"
  by (simp_all add: norm_eval)

lemma alias_src_norms:
  "normalize_label (asc ''Donem Kari Vergi Yukumlulugu'') = asc ''donem kari vergi yukumlulugu''"
  "normalize_label (asc ''Donem Kar Vergi Yukumlulugu'') = asc ''donem kar vergi yukumlulugu''"
  "normalize_label (asc ''Cari Donem Vergisiyle ilgili Varliklar'') = asc ''cari donem vergisiyle ilgili varliklar''"
  "normalize_label (asc ''Cari Donem Vergisiyle ilgili Borclar'') = asc ''cari donem vergisiyle ilgili borclar''"
  "normalize_label (asc ''Ozkaynak Yontemiyle Degerlenen Yatirimlardan Yukumlulukler'') = asc ''ozkaynak yontemiyle degerlenen yatirimlardan yukumlulukler''"
  "normalize_label (asc ''Ozkaynak Yontemiyle Degerlenen Yatirimlar'') = asc ''ozkaynak yontemiyle degerlenen yatirimlar''"
  "normalize_label (asc ''Pesin Odenmis Giderler'') = asc ''pesin odenmis giderler''"
  "normalize_label (asc ''Ertelenmis Vergi Varligi'') = asc ''ertelenmis vergi varligi''"
  "normalize_label (asc ''Ertelenmis Gelirler'') = asc ''ertelenmis gelirler''"
  "normalize_label (asc ''Turkiye Cumhuriyeti Merkez Bankasi Hesabi'') = asc ''turkiye cumhuriyeti merkez bankasi hesabi''"
  "normalize_label (tr ''T~urkiye Cumhuriyeti Merkez Bankas~i Hesab~i'') = asc ''turkiye cumhuriyeti merkez bankas hesab''"
  by (simp_all add: norm_eval)

lemma alias_target_keys:
  "assoc label_to_key (asc ''donem kar vergi yukumlulugu'') = Some (asc ''donemKariVergiYukumluluguKV'')"
  "assoc label_to_key (asc ''cari donem vergisiyle ilgili varl klar'') = Some (asc ''cariDonemVergisiyleIlgiliVarliklarDonen'')"
  "assoc label_to_key (asc ''cari donem vergisiyle ilgili borclar'') = Some (asc ''cariDonemVergisiyleIlgiliBorclarUV'')"
  "assoc label_to_key (asc ''ozkaynak yontemiyle degerlenen yat r mlardan yukumlulukler'') = Some (asc ''ozkaynakYontemiyleDegerlenenYatirimlardanYukumluluklerUV'')"
  "assoc label_to_key (asc ''ozkaynak yontemiyle degerlenen yat r mlar'') = Some (asc ''ozkaynakYontemiyleDegerlenenYatirimlar'')"
  "assoc label_to_key (asc ''pesin odenmis giderler'') = Some (asc ''pesinOdenmisGiderlerDuran'')"
  "assoc label_to_key (asc ''ertelenmis vergi varl g'') = Some (asc ''ertelenmisVergiVarligiDuran'')"
  "assoc label_to_key (asc ''ertelenmis gelirler'') = Some (asc ''ertelenmisGelirlerUV'')"
  "assoc label_to_key (asc ''turkiye cumhuriyet merkez bankas hesab'') = Some (asc ''tcmbHesabi'')"
  unfolding assoc_label_to_key norm_fields_all
  by (simp_all add: asc_eq_iff cong: find_last_cong)

lemma asc_not_Nil: "asc (c # cs) \<noteq> []"
  by (simp add: asc_def)

lemma alias_to_key_eq:
  "alias_to_key =
     [(asc ''donem kari vergi yukumlulugu'',
       asc ''donemKariVergiYukumluluguKV''),
      (asc ''donem kar vergi yukumlulugu'',
       asc ''donemKariVergiYukumluluguKV''),
      (asc ''cari donem vergisiyle ilgili varliklar'',
       asc ''cariDonemVergisiyleIlgiliVarliklarDonen''),
      (asc ''cari donem vergisiyle ilgili borclar'',
       asc ''cariDonemVergisiyleIlgiliBorclarUV''),
      (asc ''ozkaynak yontemiyle degerlenen yatirimlardan yukumlulukler'',
       asc ''ozkaynakYontemiyleDegerlenenYatirimlardanYukumluluklerUV''),
      (asc ''ozkaynak yontemiyle degerlenen yatirimlar'',
       asc ''ozkaynakYontemiyleDegerlenenYatirimlar''),
      (asc ''pesin odenmis giderler'',
       asc ''pesinOdenmisGiderlerDuran''),
      (asc ''ertelenmis vergi varligi'',
       asc ''ertelenmisVergiVarligiDuran''),
      (asc ''ertelenmis gelirler'',
       asc ''ertelenmisGelirlerUV''),
      (asc ''turkiye cumhuriyeti merkez bankasi hesabi'',
       asc ''tcmbHesabi''),
      (asc ''turkiye cumhuriyeti merkez bankas hesab'',
       asc ''tcmbHesabi'')]"
  unfolding alias_to_key_def alias_pairs_def
  by (simp add: add_alias_def alias_targets alias_target_norms alias_src_norms alias_target_keys
      asc_not_Nil asc_eq_iff)

section \<open>A label that two groups share\<close>










section \<open>Headers that the reader does not see\<close>








text \<open>
  C10. A row whose label is in neither table of labels (that of the current group, that of
  all groups) but in the table of aliases: in the two-column format the row adds no entry,
  whatever the alias table says; in the other format, with an empty key cell and an amount,
  the row is stored under the key of the alias.
\<close>

theorem C10_alias_only_detailed:
  assumes "label \<noteq> PNone"
    and "lookup_label (current_group st) (normalize_label (py_str label)) = None"
    and "assoc alias_to_key (normalize_label (py_str label)) = Some k"
    and "key_col lay = 4" and "val_col lay = 5" and "label_col lay = 3"
    and "\<not> is_blank v"
  shows "loaded (row_step (lay\<lparr>is_simple_format := True\<rparr>) [label, v] st) = loaded st
         \<and> row_step (lay\<lparr>is_simple_format := False\<rparr>) [a, b, label, PNone, v] st
             = st\<lparr>loaded := dict_set (loaded st) k (PFloat (cell_amount v))\<rparr>"
  using assms
  by (simp add: row_step_def simple_step_def detailed_step_def key_of_label_def)

lemma donem_kari_not_label:
  "assoc label_to_key (asc ''donem kari vergi yukumlulugu'') = None"
  unfolding assoc_label_to_key norm_fields_all
  by (simp add: asc_eq_iff cong: find_last_cong)

theorem C10_alias_only_detailed_witness:
  "PStr (asc ''Donem Kari Vergi Yukumlulugu'') \<noteq> PNone
   \<and> lookup_label None (normalize_label (asc ''Donem Kari Vergi Yukumlulugu'')) = None
   \<and> assoc alias_to_key (normalize_label (asc ''Donem Kari Vergi Yukumlulugu''))
       = Some (asc ''donemKariVergiYukumluluguKV'')
   \<and> \<not> is_blank (PInt 5)
   \<and> loaded (row_step
        \<lparr>is_simple_format = True, header_row_idx = 1, key_col = 4, val_col = 5, label_col = 3\<rparr>
        [PStr (asc ''Donem Kari Vergi Yukumlulugu''), PInt 5]
        \<lparr>current_group = None, loaded = []\<rparr>) = []
   \<and> row_step
        \<lparr>is_simple_format = False, header_row_idx = 1, key_col = 4, val_col = 5, label_col = 3\<rparr>
        [PNone, PNone, PStr (asc ''Donem Kari Vergi Yukumlulugu''), PNone, PInt 5]
        \<lparr>current_group = None, loaded = []\<rparr>
       = \<lparr>current_group = None,
          loaded = [(asc ''donemKariVergiYukumluluguKV'', PFloat 5)]\<rparr>"
proof -
  have n: "normalize_label (asc ''Donem Kari Vergi Yukumlulugu'')
             = asc ''donem kari vergi yukumlulugu''"
    by (rule alias_src_norms)
  have h: "PStr (asc ''Donem Kari Vergi Yukumlulugu'') \<noteq> PNone"
    "lookup_label (current_group \<lparr>current_group = None, loaded = []\<rparr>)
       (normalize_label (py_str (PStr (asc ''Donem Kari Vergi Yukumlulugu'')))) = None"
    "assoc alias_to_key (normalize_label (py_str (PStr (asc ''Donem Kari Vergi Yukumlulugu''))))
       = Some (asc ''donemKariVergiYukumluluguKV'')"
    "\<not> is_blank (PInt 5)"
    by (simp_all add: n lookup_label_def donem_kari_not_label alias_to_key_eq asc_eq_iff
        is_blank_simps)
  have l: "key_col \<lparr>is_simple_format = False, header_row_idx = 1, key_col = 4, val_col = 5,
             label_col = 3\<rparr> = 4"
    "val_col \<lparr>is_simple_format = False, header_row_idx = 1, key_col = 4, val_col = 5,
             label_col = 3\<rparr> = 5"
    "label_col \<lparr>is_simple_format = False, header_row_idx = 1, key_col = 4, val_col = 5,
             label_col = 3\<rparr> = 3"
    by simp_all
  from C10_alias_only_detailed [OF h(1-3) l h(4), of PNone PNone] h
  show ?thesis
    by (simp add: cell_amount_simps)
qed


end
